theory Spec2Isabelle
  imports Main "HOL-Library.Multiset"
begin

text \<open>
  The assignment and settlement engine of SpeedSanta, \<open>src/lib/firebase.ts\<close>: a room of
  participants in which half of the participants at a time are gifters, each with one
  recipient; a settled gift moves its amount to the gifter's \<open>spent\<close> and the recipient's
  \<open>received\<close> and new gifters are drawn. The sources hold two revisions of the module,
  \<open>src/lib/firebase.ts\<close> and \<open>src/unnamed/part_002\<close>; both are modelled. The Firestore
  collection is a map from room ids to room documents that every operation takes and
  returns; the clock and the outcome of each shuffle are arguments.
\<close>

section \<open>Data model (types of the room document)\<close>

text \<open>
  The records follow the interfaces \<open>Participant\<close>, \<open>Assignment\<close>, \<open>Gift\<close> and \<open>Room\<close>.
  A number is an \<open>int\<close>: the amounts and budgets the user interface passes are results
  of \<open>parseInt\<close>, integer-valued doubles; \<open>jsAdd\<close> below is their addition. An optional
  or nullable field is an \<open>option\<close>.
  The fields \<open>gifter\<close> and \<open>recipient\<close> occur in three interfaces; the participant's and the
  gift's carry a prefix.
\<close>

record participant =
  username :: string
  spent :: int
  received :: int
  isGifter :: bool
  p_recipient :: "string option"

record assignment =
  gifter :: string
  recipient :: string

text \<open>
  The gift's \<open>id\<close> is \<open>Date.now().toString()\<close>; it is represented by the clock reading
  itself. \<open>timestamp\<close> and \<open>isHidden\<close> are written by one of the two revisions of
  \<open>addGift\<close> only; in the other the fields are absent from the stored object.
\<close>

record gift =
  g_id :: int
  g_gifter :: string
  g_recipient :: string
  description :: string
  amount :: int
  timestamp :: "int option"
  isHidden :: "bool option"

record room =
  name :: string
  budget :: int
  gameStarted :: bool
  participants :: "participant list"
  gifts :: "gift list"
  activeAssignments :: "assignment list"
  createdAt :: int
  createdBy :: string

text \<open>The collection \<open>rooms\<close> of the document store: room id to room document.\<close>

type_synonym store = "string \<rightharpoonup> room"

datatype error = RoomNotFound | NeedAtLeast3Participants | NeedAtLeast2Participants

text \<open>
  Firestore's \<open>arrayUnion\<close> with one element: the element is added at the end unless an
  equal element is already in the array.
\<close>

definition arrayUnion :: "'a list \<Rightarrow> 'a \<Rightarrow> 'a list" where
  "arrayUnion xs x = (if x \<in> set xs then xs else xs @ [x])"

text \<open>
  The addition of JavaScript numbers, on integer-valued doubles: the exact sum rounded to
  53 significant bits, ties to the even significand. \<open>sigShift n\<close> is the number of low
  bits of \<open>n\<close> beyond 53 significant bits. A sum up to \<open>2^53 = 9007199254740992\<close> in
  magnitude is exact; \<open>2^53 + 1\<close> is rounded to \<open>2^53\<close>. (A sum whose magnitude reaches
  \<open>2^1024\<close> is \<open>Infinity\<close> in the program; the model does not go that far.)
\<close>

function sigShift :: "nat \<Rightarrow> nat" where
  "sigShift n = (if n < 9007199254740992 then 0 else Suc (sigShift (n div 2)))"
  by pat_completeness auto
termination
  by (relation "measure id") auto

declare sigShift.simps [simp del]

definition roundDouble :: "int \<Rightarrow> int" where
  "roundDouble z =
    (let n = nat \<bar>z\<bar>;
         e = sigShift n;
         q = n div 2 ^ e;
         rest = n mod 2 ^ e;
         m = (if 2 * rest > 2 ^ e \<or> (2 * rest = 2 ^ e \<and> odd q) then q + 1 else q)
     in sgn z * int (m * 2 ^ e))"

definition jsAdd :: "int \<Rightarrow> int \<Rightarrow> int" where
  "jsAdd x y = roundDouble (x + y)"

text \<open>
  \<open>[...xs].sort(() => Math.random() - 0.5)\<close> returns the elements of \<open>xs\<close> in some order.
  The outcome of each shuffle is a parameter of the model; \<open>is_shuffle\<close> says that it
  is a rearrangement of its argument.
\<close>

type_synonym shuffle = "participant list \<Rightarrow> participant list"

definition is_shuffle :: "shuffle \<Rightarrow> bool" where
  "is_shuffle sh \<longleftrightarrow> (\<forall>xs. mset (sh xs) = mset xs)"

section \<open>Revision \<open>src/lib/firebase.ts\<close>\<close>

text \<open>
  The pairing loop of \<open>createAssignments\<close> and \<open>createNewAssignments\<close>:
  \<open>for (const gifter of shuffledGifters)\<close> with the local state \<open>assignments\<close> and
  \<open>usedRecipients\<close>. \<open>cnt\<close> is \<open>currentGifterCount\<close>; the loop of \<open>createAssignments\<close>
  is the same text with the test \<open>assignments.length >= maxGifters\<close>, that is \<open>cnt = 0\<close>.
\<close>

fun pairGifters ::
  "participant list \<Rightarrow> nat \<Rightarrow> nat \<Rightarrow> participant list \<Rightarrow> assignment list \<Rightarrow> string set
    \<Rightarrow> assignment list" where
  "pairGifters shuffledRecipients maxGifters cnt [] assignments usedRecipients = assignments"
| "pairGifters shuffledRecipients maxGifters cnt (g # gs) assignments usedRecipients =
    (case find (\<lambda>r. username r \<noteq> username g \<and> username r \<notin> usedRecipients) shuffledRecipients of
       None \<Rightarrow> pairGifters shuffledRecipients maxGifters cnt gs assignments usedRecipients
     | Some r \<Rightarrow>
         (let assignments' = assignments @ [\<lparr>gifter = username g, recipient = username r\<rparr>] in
          if length assignments' + cnt \<ge> maxGifters then assignments'
          else pairGifters shuffledRecipients maxGifters cnt gs assignments'
                 (insert (username r) usedRecipients)))"

definition createAssignments ::
  "shuffle \<Rightarrow> shuffle \<Rightarrow> participant list \<Rightarrow> int \<Rightarrow> string list \<Rightarrow> assignment list" where
  "createAssignments shuffleR shuffleG ps bud prevGifters =
    (let eligibleRecipients = filter (\<lambda>p. received p < bud) ps;
         peopleWhoHaventGifted =
           filter (\<lambda>p. spent p = 0 \<and> username p \<notin> set prevGifters) ps;
         availableGifters =
           (if length peopleWhoHaventGifted > 0 then peopleWhoHaventGifted
            else filter (\<lambda>p. \<not> isGifter p \<and> username p \<notin> set prevGifters) ps)
     in if length eligibleRecipients = 0 \<or> length availableGifters = 0 then []
        else pairGifters (shuffleR eligibleRecipients) (length ps div 2) 0
               (shuffleG availableGifters) [] {})"

definition createNewAssignments ::
  "shuffle \<Rightarrow> shuffle \<Rightarrow> participant list \<Rightarrow> int \<Rightarrow> assignment list \<Rightarrow> string list
    \<Rightarrow> assignment list" where
  "createNewAssignments shuffleR shuffleG ps bud currentAssignments excludeGifters =
    (let eligibleRecipients = filter (\<lambda>p. received p < bud) ps;
         prevGifters = map gifter currentAssignments;
         peopleWhoHaventGifted =
           filter (\<lambda>p. spent p = 0
                      \<and> \<not> (\<exists>a \<in> set currentAssignments. gifter a = username p)
                      \<and> username p \<notin> set prevGifters
                      \<and> username p \<notin> set excludeGifters) ps;
         availableGifters =
           (if length peopleWhoHaventGifted > 0 then peopleWhoHaventGifted
            else filter (\<lambda>p. \<not> isGifter p
                      \<and> \<not> (\<exists>a \<in> set currentAssignments. gifter a = username p)
                      \<and> username p \<notin> set prevGifters
                      \<and> username p \<notin> set excludeGifters) ps)
     in if length eligibleRecipients = 0 \<or> length availableGifters = 0 then []
        else
          (let maxGifters = length ps div 2;
               currentGifterCount = length currentAssignments
           in if currentGifterCount \<ge> maxGifters then []
              else pairGifters (shuffleR eligibleRecipients) maxGifters currentGifterCount
                     (shuffleG availableGifters) [] (set (map recipient currentAssignments))))"

text \<open>
  The object both \<open>startGame\<close> and \<open>addGift\<close> map over the participants:
  \<open>{...p, isGifter: as.some(a => a.gifter === p.username),
     recipient: as.find(a => a.gifter === p.username)?.recipient ?? null}\<close>.
\<close>

definition withAssignments :: "assignment list \<Rightarrow> participant \<Rightarrow> participant" where
  "withAssignments as p =
     p\<lparr>isGifter := (\<exists>a \<in> set as. gifter a = username p),
       p_recipient := map_option recipient (find (\<lambda>a. gifter a = username p) as)\<rparr>"

text \<open>
  The first map of \<open>addGift\<close> over the participants (spent and received) and the second
  one (the gifter's flag and recipient are cleared).
\<close>

definition settleAmounts :: "string \<Rightarrow> string \<Rightarrow> int \<Rightarrow> participant \<Rightarrow> participant" where
  "settleAmounts g r amt p =
     (if username p = g then p\<lparr>spent := jsAdd (spent p) amt\<rparr>
      else if username p = r then p\<lparr>received := jsAdd (received p) amt\<rparr>
      else p)"

definition clearGifter :: "string \<Rightarrow> participant \<Rightarrow> participant" where
  "clearGifter g p = (if username p = g then p\<lparr>isGifter := False, p_recipient := None\<rparr> else p)"

definition startGame :: "shuffle \<Rightarrow> shuffle \<Rightarrow> store \<Rightarrow> string \<Rightarrow> error + store" where
  "startGame shuffleR shuffleG db roomId =
    (case db roomId of
       None \<Rightarrow> Inl RoomNotFound
     | Some rm \<Rightarrow>
         if length (participants rm) < 3 then Inl NeedAtLeast3Participants
         else
           (let prevGifters = map gifter (activeAssignments rm);
                assignments = createAssignments shuffleR shuffleG (participants rm) (budget rm) prevGifters;
                updatedParticipants = map (withAssignments assignments) (participants rm)
            in Inr (db(roomId \<mapsto> rm\<lparr>gameStarted := True,
                                      activeAssignments := assignments,
                                      participants := updatedParticipants\<rparr>))))"

text \<open>
  \<open>addGift\<close>; \<open>now\<close> is the reading of \<open>Date.now()\<close>. This revision stores the gift
  without \<open>timestamp\<close> and \<open>isHidden\<close>.
\<close>

definition addGift ::
  "shuffle \<Rightarrow> shuffle \<Rightarrow> int \<Rightarrow> store \<Rightarrow> string \<Rightarrow> string \<Rightarrow> string \<Rightarrow> string \<Rightarrow> int
    \<Rightarrow> error + store" where
  "addGift shuffleR shuffleG now db roomId g r descr amt =
    (case db roomId of
       None \<Rightarrow> Inl RoomNotFound
     | Some rm \<Rightarrow>
         (let gft = \<lparr>g_id = now, g_gifter = g, g_recipient = r, description = descr,
                     amount = amt, timestamp = None, isHidden = None\<rparr>;
              updatedParticipants = map (settleAmounts g r amt) (participants rm);
              updatedAssignments =
                filter (\<lambda>a. \<not> (gifter a = g \<and> recipient a = r)) (activeAssignments rm);
              finalParticipants = map (clearGifter g) updatedParticipants;
              newAssignments =
                createNewAssignments shuffleR shuffleG finalParticipants (budget rm)
                  updatedAssignments [g];
              finalParticipantsWithAssignments =
                map (withAssignments (updatedAssignments @ newAssignments)) finalParticipants
          in Inr (db(roomId \<mapsto> rm\<lparr>gifts := arrayUnion (gifts rm) gft,
                                    participants := finalParticipantsWithAssignments,
                                    activeAssignments := updatedAssignments @ newAssignments\<rparr>))))"

text \<open>\<open>joinRoom\<close> returns its boolean result and the store.\<close>

definition joinRoom :: "store \<Rightarrow> string \<Rightarrow> string \<Rightarrow> bool \<times> store" where
  "joinRoom db roomId uname =
    (case db roomId of
       None \<Rightarrow> (False, db)
     | Some rm \<Rightarrow>
         if gameStarted rm \<and> find (\<lambda>p. username p = uname) (participants rm) = None
         then (False, db)
         else
           (case find (\<lambda>p. username p = uname) (participants rm) of
              Some existingParticipant \<Rightarrow> (True, db)
            | None \<Rightarrow>
                (let newParticipant = \<lparr>username = uname, spent = 0, received = 0,
                                        isGifter = False, p_recipient = None\<rparr>
                 in (True, db(roomId \<mapsto> rm\<lparr>participants :=
                                   arrayUnion (participants rm) newParticipant\<rparr>)))))"

text \<open>
  \<open>createRoom\<close>; \<open>roomId\<close> is the id of the document reference Firestore generates and
  \<open>now\<close> the reading of \<open>Date.now()\<close>. It returns the id and the store.
\<close>

record createRoomData =
  cr_roomName :: string
  cr_username :: string
  cr_budget :: int

definition createRoom :: "store \<Rightarrow> string \<Rightarrow> createRoomData \<Rightarrow> int \<Rightarrow> string \<times> store" where
  "createRoom db roomId dat now =
    (let initialParticipant = \<lparr>username = cr_username dat, spent = 0, received = 0,
                                 isGifter = False, p_recipient = None\<rparr>;
         rm = \<lparr>name = cr_roomName dat, budget = cr_budget dat, gameStarted = False,
                participants = [initialParticipant], gifts = [], activeAssignments = [],
                createdAt = now, createdBy = cr_username dat\<rparr>
     in (roomId, db(roomId \<mapsto> rm)))"

section \<open>Revision \<open>src/unnamed/part_002\<close>\<close>

text \<open>
  The second revision of the same module. \<open>joinRoom\<close> is the same text in both; the
  functions that differ carry a suffix. Its loops pair \<open>shuffledGifters[i]\<close> with
  \<open>shuffledRecipients[i]\<close> for \<open>i\<close> below the minimum of the bound and the two lengths.
\<close>

definition createAssignments_part002 ::
  "shuffle \<Rightarrow> shuffle \<Rightarrow> participant list \<Rightarrow> int \<Rightarrow> assignment list" where
  "createAssignments_part002 shuffleR shuffleG ps bud =
    (let eligibleRecipients = filter (\<lambda>p. received p < bud) ps;
         availableGifters = filter (\<lambda>p. \<not> isGifter p) ps
     in if length eligibleRecipients = 0 \<or> length availableGifters = 0 then []
        else
          (let maxGifters = length ps div 2;
               shuffledRecipients = shuffleR eligibleRecipients;
               shuffledGifters = shuffleG availableGifters
           in map (\<lambda>i. \<lparr>gifter = username (shuffledGifters ! i),
                         recipient = username (shuffledRecipients ! i)\<rparr>)
                [0 ..< min maxGifters (min (length shuffledGifters) (length shuffledRecipients))]))"

definition createNewAssignments_part002 ::
  "shuffle \<Rightarrow> shuffle \<Rightarrow> participant list \<Rightarrow> int \<Rightarrow> assignment list \<Rightarrow> assignment list" where
  "createNewAssignments_part002 shuffleR shuffleG ps bud currentAssignments =
    (let eligibleRecipients = filter (\<lambda>p. received p < bud) ps;
         availableGifters =
           filter (\<lambda>p. \<not> isGifter p
                      \<and> \<not> (\<exists>a \<in> set currentAssignments. gifter a = username p)) ps
     in if length eligibleRecipients = 0 \<or> length availableGifters = 0 then []
        else
          (let maxGifters = length ps div 2;
               currentGifterCount = length currentAssignments
           in if currentGifterCount \<ge> maxGifters then []
              else
                (let shuffledRecipients = shuffleR eligibleRecipients;
                     shuffledGifters = shuffleG availableGifters
                 in map (\<lambda>i. \<lparr>gifter = username (shuffledGifters ! i),
                               recipient = username (shuffledRecipients ! i)\<rparr>)
                      [0 ..< min (maxGifters - currentGifterCount)
                               (min (length shuffledGifters) (length shuffledRecipients))])))"

definition startGame_part002 :: "shuffle \<Rightarrow> shuffle \<Rightarrow> store \<Rightarrow> string \<Rightarrow> error + store" where
  "startGame_part002 shuffleR shuffleG db roomId =
    (case db roomId of
       None \<Rightarrow> Inl RoomNotFound
     | Some rm \<Rightarrow>
         if length (participants rm) < 2 then Inl NeedAtLeast2Participants
         else
           (let assignments =
                  createAssignments_part002 shuffleR shuffleG (participants rm) (budget rm);
                updatedParticipants = map (withAssignments assignments) (participants rm)
            in Inr (db(roomId \<mapsto> rm\<lparr>gameStarted := True,
                                      activeAssignments := assignments,
                                      participants := updatedParticipants\<rparr>))))"

text \<open>
  \<open>now\<close> and \<open>now'\<close> are the two readings of \<open>Date.now()\<close>, for \<open>id\<close> and for
  \<open>timestamp\<close>.
\<close>

definition addGift_part002 ::
  "shuffle \<Rightarrow> shuffle \<Rightarrow> int \<Rightarrow> int \<Rightarrow> store \<Rightarrow> string \<Rightarrow> string \<Rightarrow> string \<Rightarrow> string \<Rightarrow> int
    \<Rightarrow> error + store" where
  "addGift_part002 shuffleR shuffleG now now' db roomId g r descr amt =
    (case db roomId of
       None \<Rightarrow> Inl RoomNotFound
     | Some rm \<Rightarrow>
         (let gft = \<lparr>g_id = now, g_gifter = g, g_recipient = r, description = descr,
                     amount = amt, timestamp = Some now', isHidden = Some True\<rparr>;
              updatedParticipants = map (settleAmounts g r amt) (participants rm);
              updatedAssignments =
                filter (\<lambda>a. \<not> (gifter a = g \<and> recipient a = r)) (activeAssignments rm);
              finalParticipants = map (clearGifter g) updatedParticipants;
              newAssignments =
                createNewAssignments_part002 shuffleR shuffleG finalParticipants (budget rm)
                  updatedAssignments;
              finalParticipantsWithAssignments =
                map (withAssignments (updatedAssignments @ newAssignments)) finalParticipants
          in Inr (db(roomId \<mapsto> rm\<lparr>gifts := arrayUnion (gifts rm) gft,
                                    participants := finalParticipantsWithAssignments,
                                    activeAssignments := updatedAssignments @ newAssignments\<rparr>))))"

text \<open>
  The three maps \<open>addGift\<close> applies to the participants one after the other, in both
  revisions, as one function of the final assignment list.
\<close>
definition settledParticipants ::
  "assignment list \<Rightarrow> string \<Rightarrow> string \<Rightarrow> int \<Rightarrow> participant list \<Rightarrow> participant list" where
  "settledParticipants as g r amt ps =
     map (withAssignments as) (map (clearGifter g) (map (settleAmounts g r amt) ps))"

section \<open>The gift form of the room page\<close>

text \<open>
  \<open>handleAddGift\<close> of \<open>app/room/[id]/page.tsx\<close>, the caller of \<open>addGift\<close>. The
  JavaScript built-ins \<open>parseInt\<close> (\<open>None\<close> is \<open>NaN\<close>) and \<open>String.prototype.trim\<close>
  are parameters, and so is the revision of \<open>addGift\<close> the page is linked with (with its
  shuffles and clock reading). The result is the message given to \<open>setError\<close>, if any,
  and the store.
\<close>

datatype ui_error = FillInAllFields | EnterValidAmount | WouldExceedBudget | FailedToAddGift

type_synonym addGift_fn = "store \<Rightarrow> string \<Rightarrow> string \<Rightarrow> string \<Rightarrow> string \<Rightarrow> int \<Rightarrow> error + store"

definition handleAddGift ::
  "(string \<Rightarrow> int option) \<Rightarrow> (string \<Rightarrow> string) \<Rightarrow> addGift_fn \<Rightarrow> store \<Rightarrow> string
    \<Rightarrow> participant option \<Rightarrow> room \<Rightarrow> string \<Rightarrow> string \<Rightarrow> ui_error option \<times> store" where
  "handleAddGift parseInt trim addGiftFn db roomId currentUser rm giftDescription giftAmount =
    (case currentUser of
       None \<Rightarrow> (Some FillInAllFields, db)
     | Some u \<Rightarrow>
         (case p_recipient u of
            None \<Rightarrow> (Some FillInAllFields, db)
          | Some rcp \<Rightarrow>
              if rcp = [] \<or> trim giftDescription = [] \<or> giftAmount = []
              then (Some FillInAllFields, db)
              else
                (case parseInt giftAmount of
                   None \<Rightarrow> (Some EnterValidAmount, db)
                 | Some amt \<Rightarrow>
                     if amt \<le> 0 then (Some EnterValidAmount, db)
                     else if jsAdd (spent u) amt > budget rm then (Some WouldExceedBudget, db)
                     else
                       (case addGiftFn db roomId (username u) rcp giftDescription amt of
                          Inl e \<Rightarrow> (Some FailedToAddGift, db)
                        | Inr db' \<Rightarrow> (None, db')))))"

text \<open>
  \<open>handleAddGift\<close> of the \<open>GiftForm\<close> component in \<open>src/unnamed/part_001\<close>: the same
  checks without the budget test.
\<close>

definition handleAddGift_part001 ::
  "(string \<Rightarrow> int option) \<Rightarrow> (string \<Rightarrow> string) \<Rightarrow> addGift_fn \<Rightarrow> store \<Rightarrow> string
    \<Rightarrow> participant option \<Rightarrow> string \<Rightarrow> string \<Rightarrow> ui_error option \<times> store" where
  "handleAddGift_part001 parseInt trim addGiftFn db roomId currentUser giftDescription giftAmount =
    (case currentUser of
       None \<Rightarrow> (Some FillInAllFields, db)
     | Some u \<Rightarrow>
         (case p_recipient u of
            None \<Rightarrow> (Some FillInAllFields, db)
          | Some rcp \<Rightarrow>
              if rcp = [] \<or> trim giftDescription = [] \<or> giftAmount = []
              then (Some FillInAllFields, db)
              else
                (case parseInt giftAmount of
                   None \<Rightarrow> (Some EnterValidAmount, db)
                 | Some amt \<Rightarrow>
                     if amt \<le> 0 then (Some EnterValidAmount, db)
                     else
                       (case addGiftFn db roomId (username u) rcp giftDescription amt of
                          Inl e \<Rightarrow> (Some FailedToAddGift, db)
                        | Inr db' \<Rightarrow> (None, db')))))"

section \<open>The stores the operations produce\<close>

text \<open>
  A store is reachable when it comes from the empty collection by calls of the exported
  operations, of either revision, with any arguments, clock readings and shuffles.
\<close>

inductive reachable :: "store \<Rightarrow> bool" where
  reachable_empty: "reachable Map.empty"
| reachable_createRoom: "reachable db \<Longrightarrow> reachable (snd (createRoom db roomId dat now))"
| reachable_joinRoom: "reachable db \<Longrightarrow> reachable (snd (joinRoom db roomId uname))"
| reachable_startGame:
    "reachable db \<Longrightarrow> startGame shuffleR shuffleG db roomId = Inr db' \<Longrightarrow> reachable db'"
| reachable_startGame_part002:
    "reachable db \<Longrightarrow> startGame_part002 shuffleR shuffleG db roomId = Inr db' \<Longrightarrow> reachable db'"
| reachable_addGift:
    "reachable db \<Longrightarrow> addGift shuffleR shuffleG now db roomId g r descr amt = Inr db'
      \<Longrightarrow> reachable db'"
| reachable_addGift_part002:
    "reachable db \<Longrightarrow> addGift_part002 shuffleR shuffleG now now' db roomId g r descr amt = Inr db'
      \<Longrightarrow> reachable db'"

text \<open>What holds of every room of a reachable store.\<close>

definition room_ok :: "room \<Rightarrow> bool" where
  "room_ok rm \<longleftrightarrow> distinct (map username (participants rm))
     \<and> length (activeAssignments rm) \<le> length (participants rm) div 2"

section \<open>Concrete rooms\<close>

text \<open>
  The rooms the closed theorems below evaluate the model on. \<open>person\<close> builds a
  participant; \<open>party\<close> builds a room named \<open>party\<close> with budget 100.
\<close>

definition person :: "string \<Rightarrow> int \<Rightarrow> int \<Rightarrow> string option \<Rightarrow> participant" where
  "person u s r rcp =
     \<lparr>username = u, spent = s, received = r, isGifter = (rcp \<noteq> None), p_recipient = rcp\<rparr>"

definition pair :: "string \<Rightarrow> string \<Rightarrow> assignment" where
  "pair g r = \<lparr>gifter = g, recipient = r\<rparr>"

definition party :: "bool \<Rightarrow> participant list \<Rightarrow> gift list \<Rightarrow> assignment list \<Rightarrow> room" where
  "party started ps gs as =
     \<lparr>name = ''party'', budget = 100, gameStarted = started, participants = ps, gifts = gs,
      activeAssignments = as, createdAt = 0, createdBy = ''A''\<rparr>"

definition present :: "int \<Rightarrow> string \<Rightarrow> string \<Rightarrow> int \<Rightarrow> gift" where
  "present t g r amt =
     \<lparr>g_id = t, g_gifter = g, g_recipient = r, description = ''scarf'', amount = amt,
      timestamp = None, isHidden = None\<rparr>"

definition present_hidden :: "int \<Rightarrow> string \<Rightarrow> string \<Rightarrow> int \<Rightarrow> gift" where
  "present_hidden t g r amt =
     \<lparr>g_id = t, g_gifter = g, g_recipient = r, description = ''scarf'', amount = amt,
      timestamp = Some t, isHidden = Some True\<rparr>"

text \<open>Three participants before the game starts, and two.\<close>

definition lobby3 :: room where
  "lobby3 = party False
     [person ''A'' 0 0 None, person ''B'' 0 0 None, person ''C'' 0 0 None] [] []"

definition lobby2 :: room where
  "lobby2 = party False [person ''A'' 0 0 None, person ''B'' 0 0 None] [] []"

text \<open>\<open>lobby3\<close> after \<open>startGame\<close>: A gifts to B.\<close>

definition started3 :: room where
  "started3 = party True
     [person ''A'' 0 0 (Some ''B''), person ''B'' 0 0 None, person ''C'' 0 0 None] []
     [pair ''A'' ''B'']"

text \<open>\<open>started3\<close> after A has settled 40 for B at time 1000: B now gifts to A.\<close>

definition settled3 :: room where
  "settled3 = party True
     [person ''A'' 40 0 None, person ''B'' 0 40 (Some ''A''), person ''C'' 0 0 None]
     [present 1000 ''A'' ''B'' 40]
     [pair ''B'' ''A'']"

text \<open>\<open>settled3\<close> after the same call of \<open>addGift\<close> once more, at time 2000.\<close>

definition settled3_twice :: room where
  "settled3_twice = party True
     [person ''A'' 80 0 None, person ''B'' 0 80 (Some ''A''), person ''C'' 0 0 None]
     [present 1000 ''A'' ''B'' 40, present 2000 ''A'' ''B'' 40]
     [pair ''B'' ''A'']"

text \<open>\<open>started3\<close> after A has settled the amount \<open>-5\<close> for B at time 1000.\<close>

definition settled3_negative :: room where
  "settled3_negative = party True
     [person ''A'' (-5) 0 None, person ''B'' 0 (-5) (Some ''A''), person ''C'' 0 0 None]
     [present 1000 ''A'' ''B'' (-5)]
     [pair ''B'' ''A'']"

text \<open>
  Four participants in the middle of a game: A, B and D have each given 10; C, whose
  first turn as gifter (to D) is still open, has given nothing; D gifts to A.
\<close>

definition midgame4 :: room where
  "midgame4 = party True
     [person ''A'' 10 10 None, person ''B'' 10 10 None, person ''C'' 0 0 (Some ''D''),
      person ''D'' 0 0 (Some ''A'')]
     [present 1000 ''A'' ''B'' 10, present 2000 ''B'' ''A'' 10]
     [pair ''C'' ''D'', pair ''D'' ''A'']"

text \<open>Four participants right after the start: A gifts to B and B gifts to C.\<close>

definition started4 :: room where
  "started4 = party True
     [person ''A'' 0 0 (Some ''B''), person ''B'' 0 0 (Some ''C''), person ''C'' 0 0 None,
      person ''D'' 0 0 None] []
     [pair ''A'' ''B'', pair ''B'' ''C'']"

text \<open>\<open>midgame4\<close> after D has settled 10 for A at time 3000: A gifts again, to B.\<close>

definition after4 :: room where
  "after4 = party True
     [person ''A'' 10 20 (Some ''B''), person ''B'' 10 10 None, person ''C'' 0 0 (Some ''D''),
      person ''D'' 10 0 None]
     [present 1000 ''A'' ''B'' 10, present 2000 ''B'' ''A'' 10, present 3000 ''D'' ''A'' 10]
     [pair ''C'' ''D'', pair ''A'' ''B'']"

text \<open>Four participants before the game starts.\<close>

definition lobby4 :: room where
  "lobby4 = party False
     [person ''A'' 0 0 None, person ''B'' 0 0 None, person ''C'' 0 0 None,
      person ''D'' 0 0 None] [] []"

text \<open>Rooms written by the revision \<open>part_002\<close>: A gifts to A.\<close>

definition selfgift2 :: room where
  "selfgift2 = party True [person ''A'' 0 0 (Some ''A''), person ''B'' 0 0 None] []
     [pair ''A'' ''A'']"

text \<open>A has settled 40 for B and is the gifter again, now to C.\<close>

definition regifter3 :: room where
  "regifter3 = party True
     [person ''A'' 40 0 (Some ''C''), person ''B'' 0 40 None, person ''C'' 0 0 None]
     [present_hidden 1000 ''A'' ''B'' 40]
     [pair ''A'' ''C'']"

text \<open>The same call once more with the same clock readings: the ledger has not grown.\<close>

definition regifter3_twice :: room where
  "regifter3_twice = party True
     [person ''A'' 80 0 (Some ''C''), person ''B'' 0 80 None, person ''C'' 0 0 None]
     [present_hidden 1000 ''A'' ''B'' 40]
     [pair ''A'' ''C'']"

text \<open>\<open>started4\<close> after B has settled 10 for C: A and D both gift to B.\<close>

definition doubled4 :: room where
  "doubled4 = party True
     [person ''A'' 0 0 (Some ''B''), person ''B'' 10 0 None, person ''C'' 0 10 None,
      person ''D'' 0 0 (Some ''B'')]
     [present_hidden 1000 ''B'' ''C'' 10]
     [pair ''A'' ''B'', pair ''D'' ''B'']"

text \<open>
  A game of three in which A settles \<open>2^53 = 9007199254740992\<close> for B (the form of
  \<open>part_001\<close> has no budget test); then B settles 1 for A, C settles 1 for A, and A
  settles 1 for C.
\<close>

definition large3_first :: room where
  "large3_first = party True
     [person ''A'' 9007199254740992 0 None, person ''B'' 0 9007199254740992 (Some ''A''),
      person ''C'' 0 0 None]
     [present 1000 ''A'' ''B'' 9007199254740992]
     [pair ''B'' ''A'']"

definition large3_second :: room where
  "large3_second = party True
     [person ''A'' 9007199254740992 1 None, person ''B'' 1 9007199254740992 None,
      person ''C'' 0 0 (Some ''A'')]
     [present 1000 ''A'' ''B'' 9007199254740992, present 2000 ''B'' ''A'' 1]
     [pair ''C'' ''A'']"

definition large3_third :: room where
  "large3_third = party True
     [person ''A'' 9007199254740992 2 (Some ''C''), person ''B'' 1 9007199254740992 None,
      person ''C'' 1 0 None]
     [present 1000 ''A'' ''B'' 9007199254740992, present 2000 ''B'' ''A'' 1,
      present 3000 ''C'' ''A'' 1]
     [pair ''A'' ''C'']"

definition large3_fourth :: room where
  "large3_fourth = party True
     [person ''A'' 9007199254740992 2 None, person ''B'' 1 9007199254740992 (Some ''A''),
      person ''C'' 1 1 None]
     [present 1000 ''A'' ''B'' 9007199254740992, present 2000 ''B'' ''A'' 1,
      present 3000 ''C'' ''A'' 1, present 4000 ''A'' ''C'' 1]
     [pair ''B'' ''A'']"

text \<open>
  A game of four in the revision \<open>part_002\<close>: the start (B gifts to A, C to D), after B
  has settled 100 for A, after C has settled 100 for D, and after D has settled 100 for
  C.
\<close>

definition paired4 :: room where
  "paired4 = party True
     [person ''A'' 0 0 None, person ''B'' 0 0 (Some ''A''), person ''C'' 0 0 (Some ''D''),
      person ''D'' 0 0 None] []
     [pair ''B'' ''A'', pair ''C'' ''D'']"

definition halfway4 :: room where
  "halfway4 = party True
     [person ''A'' 0 100 (Some ''B''), person ''B'' 100 0 None, person ''C'' 0 0 (Some ''D''),
      person ''D'' 0 0 None]
     [present_hidden 1000 ''B'' ''A'' 100]
     [pair ''C'' ''D'', pair ''A'' ''B'']"

definition nearly_done4 :: room where
  "nearly_done4 = party True
     [person ''A'' 0 100 (Some ''B''), person ''B'' 100 0 None, person ''C'' 100 0 None,
      person ''D'' 0 100 (Some ''C'')]
     [present_hidden 1000 ''B'' ''A'' 100, present_hidden 2000 ''C'' ''D'' 100]
     [pair ''A'' ''B'', pair ''D'' ''C'']"

definition overbooked4 :: room where
  "overbooked4 = party True
     [person ''A'' 0 100 (Some ''B''), person ''B'' 100 0 None, person ''C'' 100 100 (Some ''B''),
      person ''D'' 100 100 None]
     [present_hidden 1000 ''B'' ''A'' 100, present_hidden 2000 ''C'' ''D'' 100,
      present_hidden 3000 ''D'' ''C'' 100]
     [pair ''A'' ''B'', pair ''C'' ''B'']"

text \<open>The room read from a result of \<open>startGame\<close> or \<open>addGift\<close>.\<close>

definition roomAfter :: "error + store \<Rightarrow> string \<Rightarrow> room option" where
  "roomAfter res roomId = (case res of Inl e \<Rightarrow> None | Inr db \<Rightarrow> db roomId)"

section \<open>Adding numbers\<close>

lemma sigShift_small: "n < 9007199254740992 \<Longrightarrow> sigShift n = 0"
  by (simp add: sigShift.simps)

lemma roundDouble_small: "\<bar>z\<bar> < 9007199254740992 \<Longrightarrow> roundDouble z = z"
proof -
  assume a: "\<bar>z\<bar> < 9007199254740992"
  then have "nat \<bar>z\<bar> < 9007199254740992" by simp
  then have "sigShift (nat \<bar>z\<bar>) = 0" by (rule sigShift_small)
  then have "roundDouble z = sgn z * \<bar>z\<bar>" by (simp add: roundDouble_def Let_def)
  then show ?thesis by (simp add: mult_sgn_abs)
qed

lemma sigShift_2_53: "sigShift 9007199254740992 = 1"
  by (simp add: sigShift.simps)

lemma sigShift_2_53_1: "sigShift 9007199254740993 = 1"
  by (simp add: sigShift.simps)

lemma roundDouble_2_53: "roundDouble 9007199254740992 = 9007199254740992"
  by (simp add: roundDouble_def Let_def sigShift_2_53)

lemma roundDouble_neg_2_53: "roundDouble (- 9007199254740992) = - 9007199254740992"
  by (simp add: roundDouble_def Let_def sigShift_2_53)

text \<open>Sums within \<open>2^53\<close> in magnitude are exact.\<close>

lemma jsAdd_exact: "\<bar>x + y\<bar> \<le> 9007199254740992 \<Longrightarrow> jsAdd x y = x + y"
proof -
  assume a: "\<bar>x + y\<bar> \<le> 9007199254740992"
  then consider "\<bar>x + y\<bar> < 9007199254740992" | "x + y = 9007199254740992"
    | "x + y = - 9007199254740992"
    by linarith
  then show ?thesis
  proof cases
    case 1
    then show ?thesis by (simp add: jsAdd_def roundDouble_small)
  next
    case 2
    then show ?thesis by (simp add: jsAdd_def roundDouble_2_53)
  next
    case 3
    then show ?thesis by (simp add: jsAdd_def roundDouble_neg_2_53)
  qed
qed

text \<open>\<open>2^53 + 1\<close> is no double: the sum is \<open>2^53\<close>.\<close>

lemma jsAdd_rounds: "jsAdd 9007199254740992 1 = 9007199254740992"
  by (simp add: jsAdd_def roundDouble_def Let_def sigShift_2_53_1)

section \<open>The pairing loop\<close>

text \<open>
  The loop appends to \<open>assignments\<close> only, so its result is the list it started from
  followed by the result of a run from the empty list with the count advanced. The
  facts below are then about runs from the empty list.
\<close>

lemma find_SomeD: "find P xs = Some x \<Longrightarrow> P x \<and> x \<in> set xs"
  by (induction xs) (auto split: if_splits)

lemma pairGifters_append:
  "pairGifters rs m c gs acc used = acc @ pairGifters rs m (c + length acc) gs [] used"
proof (induction gs arbitrary: c acc used)
  case Nil
  show ?case by simp
next
  case (Cons g gs)
  show ?case
  proof (cases "find (\<lambda>r. username r \<noteq> username g \<and> username r \<notin> used) rs")
    case None
    then show ?thesis using Cons.IH [of c acc used] by simp
  next
    case (Some r)
    let ?x = "\<lparr>gifter = username g, recipient = username r\<rparr>"
    have a: "pairGifters rs m c gs (acc @ [?x]) (insert (username r) used)
             = (acc @ [?x]) @ pairGifters rs m (c + length (acc @ [?x])) gs [] (insert (username r) used)"
      by (rule Cons.IH)
    have b: "pairGifters rs m (c + length acc) gs [?x] (insert (username r) used)
             = [?x] @ pairGifters rs m ((c + length acc) + length [?x]) gs [] (insert (username r) used)"
      by (rule Cons.IH)
    show ?thesis using Some a b by (simp add: Let_def add.commute add.left_commute)
  qed
qed

lemma pairGifters_no_self:
  "a \<in> set (pairGifters rs m c gs [] used) \<Longrightarrow> gifter a \<noteq> recipient a"
proof (induction gs arbitrary: c used)
  case Nil
  then show ?case by simp
next
  case (Cons g gs)
  show ?case
  proof (cases "find (\<lambda>r. username r \<noteq> username g \<and> username r \<notin> used) rs")
    case None
    then show ?thesis using Cons by simp
  next
    case (Some r)
    from find_SomeD [OF Some] have ne: "username r \<noteq> username g" by simp
    show ?thesis
    proof (cases "Suc c \<ge> m")
      case True
      then show ?thesis using Cons.prems Some ne by (auto simp: Let_def)
    next
      case False
      then have "a \<in> set (pairGifters rs m c gs [\<lparr>gifter = username g, recipient = username r\<rparr>] (insert (username r) used))"
        using Cons.prems Some by (simp add: Let_def)
      then have "a = \<lparr>gifter = username g, recipient = username r\<rparr>
                 \<or> a \<in> set (pairGifters rs m (c + 1) gs [] (insert (username r) used))"
        by (subst (asm) pairGifters_append) auto
      then show ?thesis using Cons.IH ne by auto
    qed
  qed
qed

lemma pairGifters_gifter:
  "a \<in> set (pairGifters rs m c gs [] used) \<Longrightarrow> gifter a \<in> username ` set gs"
proof (induction gs arbitrary: c used)
  case Nil
  then show ?case by simp
next
  case (Cons g gs)
  show ?case
  proof (cases "find (\<lambda>r. username r \<noteq> username g \<and> username r \<notin> used) rs")
    case None
    then show ?thesis using Cons by auto
  next
    case (Some r)
    show ?thesis
    proof (cases "Suc c \<ge> m")
      case True
      then show ?thesis using Cons.prems Some by (auto simp: Let_def)
    next
      case False
      then have "a \<in> set (pairGifters rs m c gs [\<lparr>gifter = username g, recipient = username r\<rparr>] (insert (username r) used))"
        using Cons.prems Some by (simp add: Let_def)
      then have "a = \<lparr>gifter = username g, recipient = username r\<rparr>
                 \<or> a \<in> set (pairGifters rs m (c + 1) gs [] (insert (username r) used))"
        by (subst (asm) pairGifters_append) auto
      then show ?thesis using Cons.IH by auto
    qed
  qed
qed

lemma pairGifters_recipient:
  "a \<in> set (pairGifters rs m c gs [] used)
    \<Longrightarrow> recipient a \<in> username ` set rs \<and> recipient a \<notin> used"
proof (induction gs arbitrary: c used)
  case Nil
  then show ?case by simp
next
  case (Cons g gs)
  show ?case
  proof (cases "find (\<lambda>r. username r \<noteq> username g \<and> username r \<notin> used) rs")
    case None
    then show ?thesis using Cons by auto
  next
    case (Some r)
    from find_SomeD [OF Some] have r: "username r \<notin> used" "r \<in> set rs" by simp_all
    show ?thesis
    proof (cases "Suc c \<ge> m")
      case True
      then show ?thesis using Cons.prems Some r by (auto simp: Let_def)
    next
      case False
      then have "a \<in> set (pairGifters rs m c gs [\<lparr>gifter = username g, recipient = username r\<rparr>] (insert (username r) used))"
        using Cons.prems Some by (simp add: Let_def)
      then have "a = \<lparr>gifter = username g, recipient = username r\<rparr>
                 \<or> a \<in> set (pairGifters rs m (c + 1) gs [] (insert (username r) used))"
        by (subst (asm) pairGifters_append) auto
      then show ?thesis using Cons.IH [of "c + 1" "insert (username r) used"] r by auto
    qed
  qed
qed

lemma pairGifters_distinct_recipients:
  "distinct (map recipient (pairGifters rs m c gs [] used))"
proof (induction gs arbitrary: c used)
  case Nil
  show ?case by simp
next
  case (Cons g gs)
  show ?case
  proof (cases "find (\<lambda>r. username r \<noteq> username g \<and> username r \<notin> used) rs")
    case None
    then show ?thesis using Cons by simp
  next
    case (Some r)
    show ?thesis
    proof (cases "Suc c \<ge> m")
      case True
      then show ?thesis using Some by (simp add: Let_def)
    next
      case False
      let ?rest = "pairGifters rs m (c + 1) gs [] (insert (username r) used)"
      have eq: "pairGifters rs m c (g # gs) [] used
                = \<lparr>gifter = username g, recipient = username r\<rparr> # ?rest"
        using False Some pairGifters_append [of rs m c gs "[\<lparr>gifter = username g, recipient = username r\<rparr>]" "insert (username r) used"]
        by (simp add: Let_def)
      have "username r \<notin> recipient ` set ?rest"
      proof
        assume "username r \<in> recipient ` set ?rest"
        then obtain a where a: "a \<in> set ?rest" "recipient a = username r" by auto
        from pairGifters_recipient [OF a(1)] a(2) show False by simp
      qed
      then show ?thesis using eq Cons.IH [of "c + 1" "insert (username r) used"] by simp
    qed
  qed
qed

lemma pairGifters_length:
  "c < m \<Longrightarrow> length (pairGifters rs m c gs [] used) + c \<le> m"
proof (induction gs arbitrary: c used)
  case Nil
  then show ?case by simp
next
  case (Cons g gs)
  show ?case
  proof (cases "find (\<lambda>r. username r \<noteq> username g \<and> username r \<notin> used) rs")
    case None
    then show ?thesis using Cons by simp
  next
    case (Some r)
    show ?thesis
    proof (cases "Suc c \<ge> m")
      case True
      then show ?thesis using Some Cons.prems by (simp add: Let_def)
    next
      case False
      let ?rest = "pairGifters rs m (c + 1) gs [] (insert (username r) used)"
      have eq: "pairGifters rs m c (g # gs) [] used
                = \<lparr>gifter = username g, recipient = username r\<rparr> # ?rest"
        using False Some pairGifters_append [of rs m c gs "[\<lparr>gifter = username g, recipient = username r\<rparr>]" "insert (username r) used"]
        by (simp add: Let_def)
      have "length ?rest + (c + 1) \<le> m"
        using False by (intro Cons.IH) simp
      then show ?thesis using eq by simp
    qed
  qed
qed

section \<open>Shuffles\<close>

lemma is_shuffle_set: "is_shuffle sh \<Longrightarrow> set (sh xs) = set xs"
  unfolding is_shuffle_def by (metis mset_eq_setD)

lemma is_shuffle_id: "is_shuffle id"
  by (simp add: is_shuffle_def)

lemma is_shuffle_rev: "is_shuffle rev"
  by (simp add: is_shuffle_def)

lemma mset_rotate1: "mset (rotate1 xs) = mset xs"
  by (cases xs) simp_all

lemma mset_rotate: "mset (rotate n xs) = mset xs"
  by (induction n) (simp_all add: mset_rotate1)

lemma is_shuffle_rotate: "is_shuffle (rotate n)"
  by (simp add: is_shuffle_def mset_rotate)

section \<open>Facts about \<open>createAssignments\<close> and \<open>createNewAssignments\<close>\<close>

lemma createAssignments_cases:
  "createAssignments shR shG ps bud prev = []
   \<or> (\<exists>rs gs. createAssignments shR shG ps bud prev = pairGifters rs (length ps div 2) 0 gs [] {}
        \<and> rs = shR (filter (\<lambda>p. received p < bud) ps)
        \<and> gs = shG (if filter (\<lambda>p. spent p = 0 \<and> username p \<notin> set prev) ps \<noteq> []
                     then filter (\<lambda>p. spent p = 0 \<and> username p \<notin> set prev) ps
                     else filter (\<lambda>p. \<not> isGifter p \<and> username p \<notin> set prev) ps))"
  by (simp add: createAssignments_def Let_def)

lemma tier_filter:
  "filter (\<lambda>p. spent p = 0 \<and> \<not> (\<exists>a \<in> set cur. gifter a = username p)
             \<and> username p \<notin> set (map gifter cur) \<and> username p \<notin> set ex) ps
   = filter (\<lambda>p. spent p = 0 \<and> username p \<notin> gifter ` set cur \<and> username p \<notin> set ex) ps"
  by (rule filter_cong) (auto simp: image_iff)

lemma fallback_filter:
  "filter (\<lambda>p. \<not> isGifter p \<and> \<not> (\<exists>a \<in> set cur. gifter a = username p)
             \<and> username p \<notin> set (map gifter cur) \<and> username p \<notin> set ex) ps
   = filter (\<lambda>p. \<not> isGifter p \<and> username p \<notin> gifter ` set cur \<and> username p \<notin> set ex) ps"
  by (rule filter_cong) (auto simp: image_iff)

lemma createNewAssignments_cases:
  "createNewAssignments shR shG ps bud cur ex = []
   \<or> (length cur < length ps div 2
      \<and> createNewAssignments shR shG ps bud cur ex =
          pairGifters (shR (filter (\<lambda>p. received p < bud) ps)) (length ps div 2) (length cur)
            (shG (if filter (\<lambda>p. spent p = 0 \<and> username p \<notin> gifter ` set cur \<and> username p \<notin> set ex) ps \<noteq> []
                     then filter (\<lambda>p. spent p = 0 \<and> username p \<notin> gifter ` set cur \<and> username p \<notin> set ex) ps
                     else filter (\<lambda>p. \<not> isGifter p \<and> username p \<notin> gifter ` set cur \<and> username p \<notin> set ex) ps))
            [] (recipient ` set cur))"
  unfolding createNewAssignments_def Let_def tier_filter fallback_filter
  by (simp add: not_le)

lemma createAssignments_no_self:
  "a \<in> set (createAssignments shR shG ps bud prev) \<Longrightarrow> gifter a \<noteq> recipient a"
  using createAssignments_cases [of shR shG ps bud prev] pairGifters_no_self by fastforce

lemma createNewAssignments_no_self:
  "a \<in> set (createNewAssignments shR shG ps bud cur ex) \<Longrightarrow> gifter a \<noteq> recipient a"
  using createNewAssignments_cases [of shR shG ps bud cur ex] pairGifters_no_self by fastforce

lemma createNewAssignments_gifter:
  assumes sh: "is_shuffle shG"
    and a: "a \<in> set (createNewAssignments shR shG ps bud cur ex)"
  shows "\<exists>p \<in> set ps. username p = gifter a \<and> username p \<notin> gifter ` set cur \<and> username p \<notin> set ex
           \<and> ((\<exists>q \<in> set ps. spent q = 0 \<and> username q \<notin> gifter ` set cur \<and> username q \<notin> set ex) \<longrightarrow> spent p = 0)"
proof -
  let ?tier = "filter (\<lambda>p. spent p = 0 \<and> username p \<notin> gifter ` set cur \<and> username p \<notin> set ex) ps"
  let ?fall = "filter (\<lambda>p. \<not> isGifter p \<and> username p \<notin> gifter ` set cur \<and> username p \<notin> set ex) ps"
  let ?av = "if ?tier \<noteq> [] then ?tier else ?fall"
  from a createNewAssignments_cases [of shR shG ps bud cur ex]
  have "a \<in> set (pairGifters (shR (filter (\<lambda>p. received p < bud) ps)) (length ps div 2) (length cur)
            (shG ?av) [] (recipient ` set cur))"
    by auto
  from pairGifters_gifter [OF this] obtain p where p: "p \<in> set (shG ?av)" "username p = gifter a"
    by auto
  from p(1) is_shuffle_set [OF sh] have pav: "p \<in> set ?av" by simp
  show ?thesis
  proof (cases "?tier = []")
    case True
    then have "\<not> (\<exists>q \<in> set ps. spent q = 0 \<and> username q \<notin> gifter ` set cur \<and> username q \<notin> set ex)"
      by (simp add: filter_empty_conv)
    moreover from True pav have "p \<in> set ?fall" by simp
    ultimately show ?thesis using p(2) by (intro bexI [of _ p]) auto
  next
    case False
    with pav have "p \<in> set ?tier" by simp
    then show ?thesis using p(2) by (intro bexI [of _ p]) auto
  qed
qed

lemma createAssignments_gifter:
  assumes sh: "is_shuffle shG"
    and a: "a \<in> set (createAssignments shR shG ps bud prev)"
  shows "\<exists>p \<in> set ps. username p = gifter a \<and> username p \<notin> set prev
           \<and> ((\<exists>q \<in> set ps. spent q = 0 \<and> username q \<notin> set prev) \<longrightarrow> spent p = 0)"
proof -
  let ?tier = "filter (\<lambda>p. spent p = 0 \<and> username p \<notin> set prev) ps"
  let ?fall = "filter (\<lambda>p. \<not> isGifter p \<and> username p \<notin> set prev) ps"
  let ?av = "if ?tier \<noteq> [] then ?tier else ?fall"
  from a createAssignments_cases [of shR shG ps bud prev]
  have "a \<in> set (pairGifters (shR (filter (\<lambda>p. received p < bud) ps)) (length ps div 2) 0
            (shG ?av) [] {})"
    by auto
  from pairGifters_gifter [OF this] obtain p where p: "p \<in> set (shG ?av)" "username p = gifter a"
    by auto
  from p(1) is_shuffle_set [OF sh] have pav: "p \<in> set ?av" by simp
  show ?thesis
  proof (cases "?tier = []")
    case True
    then have "\<not> (\<exists>q \<in> set ps. spent q = 0 \<and> username q \<notin> set prev)"
      by (simp add: filter_empty_conv)
    moreover from True pav have "p \<in> set ?fall" by simp
    ultimately show ?thesis using p(2) by (intro bexI [of _ p]) auto
  next
    case False
    with pav have "p \<in> set ?tier" by simp
    then show ?thesis using p(2) by (intro bexI [of _ p]) auto
  qed
qed

lemma createNewAssignments_recipients:
  "distinct (map recipient (createNewAssignments shR shG ps bud cur ex))
   \<and> recipient ` set (createNewAssignments shR shG ps bud cur ex) \<inter> recipient ` set cur = {}"
proof (cases "createNewAssignments shR shG ps bud cur ex = []")
  case True
  then show ?thesis by simp
next
  case False
  with createNewAssignments_cases [of shR shG ps bud cur ex]
  obtain rs gs where eq: "createNewAssignments shR shG ps bud cur ex
      = pairGifters rs (length ps div 2) (length cur) gs [] (recipient ` set cur)"
    by blast
  have d: "distinct (map recipient (createNewAssignments shR shG ps bud cur ex))"
    unfolding eq by (rule pairGifters_distinct_recipients)
  have "\<And>a. a \<in> set (createNewAssignments shR shG ps bud cur ex) \<Longrightarrow> recipient a \<notin> recipient ` set cur"
    unfolding eq using pairGifters_recipient by blast
  then have "recipient ` set (createNewAssignments shR shG ps bud cur ex) \<inter> recipient ` set cur = {}"
    by blast
  with d show ?thesis by simp
qed

lemma createAssignments_recipients:
  "distinct (map recipient (createAssignments shR shG ps bud prev))"
proof (cases "createAssignments shR shG ps bud prev = []")
  case True
  then show ?thesis by simp
next
  case False
  with createAssignments_cases [of shR shG ps bud prev]
  obtain rs gs where eq: "createAssignments shR shG ps bud prev
      = pairGifters rs (length ps div 2) 0 gs [] {}"
    by blast
  show ?thesis unfolding eq by (rule pairGifters_distinct_recipients)
qed

lemma createNewAssignments_length:
  "length cur \<le> length ps div 2
    \<Longrightarrow> length cur + length (createNewAssignments shR shG ps bud cur ex) \<le> length ps div 2"
proof (cases "createNewAssignments shR shG ps bud cur ex = []")
  case True
  assume "length cur \<le> length ps div 2"
  with True show ?thesis by simp
next
  case False
  with createNewAssignments_cases [of shR shG ps bud cur ex]
  obtain rs gs where lt: "length cur < length ps div 2"
    and eq: "createNewAssignments shR shG ps bud cur ex
      = pairGifters rs (length ps div 2) (length cur) gs [] (recipient ` set cur)"
    by blast
  from pairGifters_length [OF lt, of rs gs "recipient ` set cur"]
  show ?thesis unfolding eq by simp
qed

lemma createAssignments_length:
  assumes "2 \<le> length ps"
  shows "length (createAssignments shR shG ps bud prev) \<le> length ps div 2"
proof (cases "createAssignments shR shG ps bud prev = []")
  case True
  then show ?thesis by simp
next
  case False
  with createAssignments_cases [of shR shG ps bud prev]
  obtain rs gs where eq: "createAssignments shR shG ps bud prev
      = pairGifters rs (length ps div 2) 0 gs [] {}"
    by blast
  from assms have "0 < length ps div 2" by simp
  from pairGifters_length [OF this, of rs gs "{}"]
  show ?thesis unfolding eq by simp
qed

section \<open>Facts about the maps over the participants\<close>

lemma withAssignments_fields:
  "username (withAssignments as p) = username p"
  "spent (withAssignments as p) = spent p"
  "received (withAssignments as p) = received p"
  by (simp_all add: withAssignments_def)

lemma clearGifter_fields:
  "username (clearGifter g p) = username p"
  "spent (clearGifter g p) = spent p"
  "received (clearGifter g p) = received p"
  by (simp_all add: clearGifter_def)

lemma settleAmounts_fields:
  "username (settleAmounts g r amt p) = username p"
  "spent (settleAmounts g r amt p) = (if username p = g then jsAdd (spent p) amt else spent p)"
  "received (settleAmounts g r amt p)
     = (if username p \<noteq> g \<and> username p = r then jsAdd (received p) amt else received p)"
  by (simp_all add: settleAmounts_def)

lemma settledParticipants_username:
  "map username (settledParticipants as g r amt ps) = map username ps"
  by (simp add: settledParticipants_def withAssignments_fields clearGifter_fields
      settleAmounts_fields comp_def)

lemma settledParticipants_spent:
  "map spent (settledParticipants as g r amt ps)
     = map (\<lambda>p. if username p = g then jsAdd (spent p) amt else spent p) ps"
  by (simp add: settledParticipants_def withAssignments_fields clearGifter_fields
      settleAmounts_fields comp_def)

lemma settledParticipants_received:
  "map received (settledParticipants as g r amt ps)
     = map (\<lambda>p. if username p \<noteq> g \<and> username p = r then jsAdd (received p) amt
                  else received p) ps"
  by (simp add: settledParticipants_def withAssignments_fields clearGifter_fields
      settleAmounts_fields comp_def)

lemma addGift_result:
  assumes "db roomId = Some rm"
  shows "addGift shR shG now db roomId g r d amt =
    Inr (db(roomId \<mapsto> rm\<lparr>
      gifts := arrayUnion (gifts rm)
        \<lparr>g_id = now, g_gifter = g, g_recipient = r, description = d, amount = amt,
          timestamp = None, isHidden = None\<rparr>,
      participants := settledParticipants
        (filter (\<lambda>a. \<not> (gifter a = g \<and> recipient a = r)) (activeAssignments rm)
          @ createNewAssignments shR shG
              (map (clearGifter g) (map (settleAmounts g r amt) (participants rm))) (budget rm)
              (filter (\<lambda>a. \<not> (gifter a = g \<and> recipient a = r)) (activeAssignments rm)) [g])
        g r amt (participants rm),
      activeAssignments :=
        filter (\<lambda>a. \<not> (gifter a = g \<and> recipient a = r)) (activeAssignments rm)
          @ createNewAssignments shR shG
              (map (clearGifter g) (map (settleAmounts g r amt) (participants rm))) (budget rm)
              (filter (\<lambda>a. \<not> (gifter a = g \<and> recipient a = r)) (activeAssignments rm)) [g]\<rparr>))"
  using assms by (simp add: addGift_def Let_def settledParticipants_def del: map_map)

lemma addGift_part002_result:
  assumes "db roomId = Some rm"
  shows "addGift_part002 shR shG now now' db roomId g r d amt =
    Inr (db(roomId \<mapsto> rm\<lparr>
      gifts := arrayUnion (gifts rm)
        \<lparr>g_id = now, g_gifter = g, g_recipient = r, description = d, amount = amt,
          timestamp = Some now', isHidden = Some True\<rparr>,
      participants := settledParticipants
        (filter (\<lambda>a. \<not> (gifter a = g \<and> recipient a = r)) (activeAssignments rm)
          @ createNewAssignments_part002 shR shG
              (map (clearGifter g) (map (settleAmounts g r amt) (participants rm))) (budget rm)
              (filter (\<lambda>a. \<not> (gifter a = g \<and> recipient a = r)) (activeAssignments rm)))
        g r amt (participants rm),
      activeAssignments :=
        filter (\<lambda>a. \<not> (gifter a = g \<and> recipient a = r)) (activeAssignments rm)
          @ createNewAssignments_part002 shR shG
              (map (clearGifter g) (map (settleAmounts g r amt) (participants rm))) (budget rm)
              (filter (\<lambda>a. \<not> (gifter a = g \<and> recipient a = r)) (activeAssignments rm))\<rparr>))"
  using assms by (simp add: addGift_part002_def Let_def settledParticipants_def del: map_map)

lemma sum_spent_settled:
  "distinct (map username ps) \<Longrightarrow>
   sum_list (map (\<lambda>p. if username p = g then spent p + amt else spent p) ps)
     = sum_list (map spent ps) + (if g \<in> username ` set ps then amt else 0)"
  by (induction ps) auto

lemma sum_received_settled:
  "distinct (map username ps) \<Longrightarrow> g \<noteq> r \<Longrightarrow>
   sum_list (map (\<lambda>p. if username p \<noteq> g \<and> username p = r then received p + amt else received p) ps)
     = sum_list (map received ps) + (if r \<in> username ` set ps then amt else 0)"
  by (induction ps) auto

lemma one_named:
  "distinct (map username ps) \<Longrightarrow> u \<in> username ` set ps
    \<Longrightarrow> length (filter (\<lambda>p. username p = u) ps) = 1"
proof (induction ps)
  case Nil
  then show ?case by simp
next
  case (Cons p ps)
  show ?case
  proof (cases "username p = u")
    case True
    from Cons.prems(1) have "username p \<notin> username ` set ps" by simp
    with True have "\<And>q. q \<in> set ps \<Longrightarrow> username q \<noteq> u" by blast
    then have "filter (\<lambda>q. username q = u) ps = []"
      by (simp add: filter_empty_conv)
    with True show ?thesis by simp
  next
    case False
    with Cons show ?thesis by auto
  qed
qed

lemma addGift_fields:
  assumes "db roomId = Some rm"
  shows "\<exists>rm' new. addGift shR shG now db roomId g r d amt = Inr (db(roomId \<mapsto> rm'))
     \<and> new = createNewAssignments shR shG
              (map (clearGifter g) (map (settleAmounts g r amt) (participants rm))) (budget rm)
              (filter (\<lambda>a. \<not> (gifter a = g \<and> recipient a = r)) (activeAssignments rm)) [g]
     \<and> gifts rm' = arrayUnion (gifts rm)
          \<lparr>g_id = now, g_gifter = g, g_recipient = r, description = d, amount = amt,
            timestamp = None, isHidden = None\<rparr>
     \<and> activeAssignments rm'
          = filter (\<lambda>a. \<not> (gifter a = g \<and> recipient a = r)) (activeAssignments rm) @ new
     \<and> participants rm' = settledParticipants (activeAssignments rm') g r amt (participants rm)
     \<and> budget rm' = budget rm \<and> gameStarted rm' = gameStarted rm"
  unfolding addGift_result [of db roomId rm, OF assms]
  by (intro exI conjI, rule refl, rule refl) simp_all

lemma addGift_part002_fields:
  assumes "db roomId = Some rm"
  shows "\<exists>rm' new. addGift_part002 shR shG now now' db roomId g r d amt = Inr (db(roomId \<mapsto> rm'))
     \<and> new = createNewAssignments_part002 shR shG
              (map (clearGifter g) (map (settleAmounts g r amt) (participants rm))) (budget rm)
              (filter (\<lambda>a. \<not> (gifter a = g \<and> recipient a = r)) (activeAssignments rm))
     \<and> gifts rm' = arrayUnion (gifts rm)
          \<lparr>g_id = now, g_gifter = g, g_recipient = r, description = d, amount = amt,
            timestamp = Some now', isHidden = Some True\<rparr>
     \<and> activeAssignments rm'
          = filter (\<lambda>a. \<not> (gifter a = g \<and> recipient a = r)) (activeAssignments rm) @ new
     \<and> participants rm' = settledParticipants (activeAssignments rm') g r amt (participants rm)
     \<and> budget rm' = budget rm \<and> gameStarted rm' = gameStarted rm"
  unfolding addGift_part002_result [of db roomId rm, OF assms]
  by (intro exI conjI, rule refl, rule refl) simp_all

section \<open>Facts about the revision \<open>part_002\<close>\<close>

lemma createNewAssignments_part002_length:
  "length cur \<le> length ps div 2
    \<Longrightarrow> length cur + length (createNewAssignments_part002 shR shG ps bud cur) \<le> length ps div 2"
  by (auto simp: createNewAssignments_part002_def Let_def)

lemma createAssignments_part002_length:
  "length (createAssignments_part002 shR shG ps bud) \<le> length ps div 2"
  by (simp add: createAssignments_part002_def Let_def)

section \<open>Capacity\<close>

lemma createNewAssignments_empty:
  assumes "length ps div 2 \<le> length cur
     \<or> (\<forall>p \<in> set ps. bud \<le> received p)
     \<or> (\<forall>p \<in> set ps. username p \<in> gifter ` set cur \<or> username p \<in> set ex
            \<or> (spent p \<noteq> 0 \<and> isGifter p))"
  shows "createNewAssignments shR shG ps bud cur ex = []"
proof -
  let ?tier = "filter (\<lambda>p. spent p = 0 \<and> username p \<notin> gifter ` set cur \<and> username p \<notin> set ex) ps"
  let ?fall = "filter (\<lambda>p. \<not> isGifter p \<and> username p \<notin> gifter ` set cur \<and> username p \<notin> set ex) ps"
  from assms consider (cap) "length ps div 2 \<le> length cur"
    | (elig) "filter (\<lambda>p. received p < bud) ps = []"
    | (cand) "?tier = []" "?fall = []"
    by (auto simp: filter_empty_conv not_less)
  then show ?thesis
  proof cases
    case cap
    then show ?thesis by (simp add: createNewAssignments_def Let_def)
  next
    case elig
    then show ?thesis by (simp add: createNewAssignments_def Let_def)
  next
    case cand
    then show ?thesis
      unfolding createNewAssignments_def Let_def tier_filter fallback_filter by simp
  qed
qed

lemma createNewAssignments_part002_empty:
  assumes "length ps div 2 \<le> length cur
     \<or> (\<forall>p \<in> set ps. bud \<le> received p)
     \<or> (\<forall>p \<in> set ps. isGifter p \<or> username p \<in> gifter ` set cur)"
  shows "createNewAssignments_part002 shR shG ps bud cur = []"
proof -
  have e: "filter (\<lambda>p. \<not> isGifter p \<and> \<not> (\<exists>a \<in> set cur. gifter a = username p)) ps
      = filter (\<lambda>p. \<not> isGifter p \<and> username p \<notin> gifter ` set cur) ps"
    by (rule filter_cong) (auto simp: image_iff)
  from assms consider (cap) "length ps div 2 \<le> length cur"
    | (elig) "filter (\<lambda>p. received p < bud) ps = []"
    | (cand) "filter (\<lambda>p. \<not> isGifter p \<and> username p \<notin> gifter ` set cur) ps = []"
    by (auto simp: filter_empty_conv not_less)
  then show ?thesis
  proof cases
    case cap
    then show ?thesis by (simp add: createNewAssignments_part002_def Let_def)
  next
    case elig
    then show ?thesis by (simp add: createNewAssignments_part002_def Let_def)
  next
    case cand
    then show ?thesis
      unfolding createNewAssignments_part002_def Let_def e by simp
  qed
qed

lemma settledParticipants_length:
  "length (settledParticipants as g r amt ps) = length ps"
  by (simp add: settledParticipants_def)

lemma addGift_capacity:
  assumes rm: "db roomId = Some rm"
    and cap: "length (activeAssignments rm) \<le> length (participants rm) div 2"
  shows "\<exists>rm'. addGift shR shG now db roomId g r d amt = Inr (db(roomId \<mapsto> rm'))
          \<and> length (participants rm') = length (participants rm)
          \<and> length (activeAssignments rm') \<le> length (participants rm') div 2"
proof -
  let ?upd = "filter (\<lambda>a. \<not> (gifter a = g \<and> recipient a = r)) (activeAssignments rm)"
  let ?fin = "map (clearGifter g) (map (settleAmounts g r amt) (participants rm))"
  from addGift_fields [of db roomId rm shR shG now g r d amt, OF rm]
  obtain rm' where res: "addGift shR shG now db roomId g r d amt = Inr (db(roomId \<mapsto> rm'))"
    and act: "activeAssignments rm' = ?upd @ createNewAssignments shR shG ?fin (budget rm) ?upd [g]"
    and ps: "participants rm' = settledParticipants (activeAssignments rm') g r amt (participants rm)"
    by blast
  have "length ?upd \<le> length (activeAssignments rm)" by (rule length_filter_le)
  with cap have "length ?upd \<le> length (participants rm) div 2" by linarith
  then have "length ?upd \<le> length ?fin div 2" by simp
  from createNewAssignments_length [OF this, of shR shG "budget rm" "[g]"]
  have "length (activeAssignments rm') \<le> length (participants rm) div 2"
    by (simp add: act)
  with res ps show ?thesis by (auto simp: settledParticipants_length)
qed

lemma addGift_part002_capacity:
  assumes rm: "db roomId = Some rm"
    and cap: "length (activeAssignments rm) \<le> length (participants rm) div 2"
  shows "\<exists>rm'. addGift_part002 shR shG now now' db roomId g r d amt = Inr (db(roomId \<mapsto> rm'))
          \<and> length (participants rm') = length (participants rm)
          \<and> length (activeAssignments rm') \<le> length (participants rm') div 2"
proof -
  let ?upd = "filter (\<lambda>a. \<not> (gifter a = g \<and> recipient a = r)) (activeAssignments rm)"
  let ?fin = "map (clearGifter g) (map (settleAmounts g r amt) (participants rm))"
  from addGift_part002_fields [of db roomId rm shR shG now now' g r d amt, OF rm]
  obtain rm' where res: "addGift_part002 shR shG now now' db roomId g r d amt = Inr (db(roomId \<mapsto> rm'))"
    and act: "activeAssignments rm' = ?upd @ createNewAssignments_part002 shR shG ?fin (budget rm) ?upd"
    and ps: "participants rm' = settledParticipants (activeAssignments rm') g r amt (participants rm)"
    by blast
  have "length ?upd \<le> length (activeAssignments rm)" by (rule length_filter_le)
  with cap have "length ?upd \<le> length (participants rm) div 2" by linarith
  then have "length ?upd \<le> length ?fin div 2" by simp
  from createNewAssignments_part002_length [OF this, of shR shG "budget rm"]
  have "length (activeAssignments rm') \<le> length (participants rm) div 2"
    by (simp add: act)
  with res ps show ?thesis by (auto simp: settledParticipants_length)
qed

lemma startGame_cases:
  assumes "db roomId = Some rm"
  shows "(length (participants rm) < 3 \<and> startGame shR shG db roomId = Inl NeedAtLeast3Participants)
       \<or> (3 \<le> length (participants rm) \<and>
           startGame shR shG db roomId = Inr (db(roomId \<mapsto> rm\<lparr>gameStarted := True,
             activeAssignments := createAssignments shR shG (participants rm) (budget rm)
                                    (map gifter (activeAssignments rm)),
             participants := map (withAssignments (createAssignments shR shG (participants rm)
                                    (budget rm) (map gifter (activeAssignments rm))))
                               (participants rm)\<rparr>)))"
  using assms by (simp add: startGame_def Let_def not_less)

lemma startGame_part002_cases:
  assumes "db roomId = Some rm"
  shows "(length (participants rm) < 2 \<and> startGame_part002 shR shG db roomId = Inl NeedAtLeast2Participants)
       \<or> (2 \<le> length (participants rm) \<and>
           startGame_part002 shR shG db roomId = Inr (db(roomId \<mapsto> rm\<lparr>gameStarted := True,
             activeAssignments := createAssignments_part002 shR shG (participants rm) (budget rm),
             participants := map (withAssignments (createAssignments_part002 shR shG
                                    (participants rm) (budget rm)))
                               (participants rm)\<rparr>)))"
  using assms by (simp add: startGame_part002_def Let_def not_less)

lemma startGame_capacity:
  assumes "startGame shR shG db roomId = Inr db'"
  shows "\<exists>rm'. db' roomId = Some rm' \<and> gameStarted rm'
          \<and> length (activeAssignments rm') \<le> length (participants rm') div 2"
proof -
  from assms obtain rm where rm: "db roomId = Some rm"
    by (auto simp: startGame_def split: option.splits)
  from startGame_cases [of db roomId rm shR shG, OF rm] assms
  have n: "3 \<le> length (participants rm)"
    and db': "db' = db(roomId \<mapsto> rm\<lparr>gameStarted := True,
             activeAssignments := createAssignments shR shG (participants rm) (budget rm)
                                    (map gifter (activeAssignments rm)),
             participants := map (withAssignments (createAssignments shR shG (participants rm)
                                    (budget rm) (map gifter (activeAssignments rm))))
                               (participants rm)\<rparr>)"
    by auto
  from n have "2 \<le> length (participants rm)" by simp
  from createAssignments_length [OF this] show ?thesis
    unfolding db' by simp
qed

lemma startGame_part002_capacity:
  assumes "startGame_part002 shR shG db roomId = Inr db'"
  shows "\<exists>rm'. db' roomId = Some rm' \<and> gameStarted rm'
          \<and> length (activeAssignments rm') \<le> length (participants rm') div 2"
proof -
  from assms obtain rm where rm: "db roomId = Some rm"
    by (auto simp: startGame_part002_def split: option.splits)
  from startGame_part002_cases [of db roomId rm shR shG, OF rm] assms
  have db': "db' = db(roomId \<mapsto> rm\<lparr>gameStarted := True,
             activeAssignments := createAssignments_part002 shR shG (participants rm) (budget rm),
             participants := map (withAssignments (createAssignments_part002 shR shG
                                    (participants rm) (budget rm)))
                               (participants rm)\<rparr>)"
    by auto
  from createAssignments_part002_length show ?thesis
    unfolding db' by simp
qed

section \<open>Self-assignment, recipients and the settled gifter in the two revisions\<close>

text \<open>
  The loop of \<open>firebase.ts\<close> skips a recipient with the gifter's username and every used
  recipient, and \<open>addGift\<close> passes the settled gifter as excluded.
\<close>

lemma firebase_no_self_assignment:
  "(\<forall>a \<in> set (createAssignments shR shG ps bud prev). gifter a \<noteq> recipient a)
   \<and> (\<forall>a \<in> set (createNewAssignments shR shG ps bud cur ex). gifter a \<noteq> recipient a)"
  using createAssignments_no_self createNewAssignments_no_self by blast

lemma firebase_recipients_exclusive:
  "distinct (map recipient (createAssignments shR shG ps bud prev))
   \<and> (distinct (map recipient cur)
        \<longrightarrow> distinct (map recipient (cur @ createNewAssignments shR shG ps bud cur ex)))"
  using createAssignments_recipients [of shR shG ps bud prev]
    createNewAssignments_recipients [of shR shG ps bud cur ex]
  by (auto simp: Int_commute)

lemma firebase_settled_gifter_excluded:
  assumes "is_shuffle shG"
  shows "\<forall>a \<in> set (createNewAssignments shR shG ps bud cur [g]). gifter a \<noteq> g"
proof
  fix a
  assume "a \<in> set (createNewAssignments shR shG ps bud cur [g])"
  from createNewAssignments_gifter [OF assms this] show "gifter a \<noteq> g" by auto
qed

lemma addGift_recipients_exclusive:
  assumes rm: "db roomId = Some rm"
    and d: "distinct (map recipient (activeAssignments rm))"
  shows "\<exists>rm'. addGift shR shG now db roomId g r d' amt = Inr (db(roomId \<mapsto> rm'))
           \<and> distinct (map recipient (activeAssignments rm'))"
proof -
  let ?upd = "filter (\<lambda>a. \<not> (gifter a = g \<and> recipient a = r)) (activeAssignments rm)"
  from addGift_fields [of db roomId rm shR shG now g r d' amt, OF rm]
  obtain rm' new where res: "addGift shR shG now db roomId g r d' amt = Inr (db(roomId \<mapsto> rm'))"
    and new: "new = createNewAssignments shR shG
              (map (clearGifter g) (map (settleAmounts g r amt) (participants rm))) (budget rm)
              ?upd [g]"
    and act: "activeAssignments rm' = ?upd @ new"
    by blast
  from d have "distinct (map recipient ?upd)" by (rule distinct_map_filter)
  with firebase_recipients_exclusive [THEN conjunct2, THEN mp] new
  have "distinct (map recipient (?upd @ new))" by blast
  with res act show ?thesis by auto
qed

lemma addGift_settled_gifter_excluded:
  assumes rm: "db roomId = Some rm"
    and sh: "is_shuffle shG"
  shows "\<exists>rm' new. addGift shR shG now db roomId g r d amt = Inr (db(roomId \<mapsto> rm'))
           \<and> activeAssignments rm'
               = filter (\<lambda>a. \<not> (gifter a = g \<and> recipient a = r)) (activeAssignments rm) @ new
           \<and> (\<forall>a \<in> set new. gifter a \<noteq> g \<and> gifter a \<noteq> recipient a)"
proof -
  let ?upd = "filter (\<lambda>a. \<not> (gifter a = g \<and> recipient a = r)) (activeAssignments rm)"
  from addGift_fields [of db roomId rm shR shG now g r d amt, OF rm]
  obtain rm' new where res: "addGift shR shG now db roomId g r d amt = Inr (db(roomId \<mapsto> rm'))"
    and new: "new = createNewAssignments shR shG
              (map (clearGifter g) (map (settleAmounts g r amt) (participants rm))) (budget rm)
              ?upd [g]"
    and act: "activeAssignments rm' = ?upd @ new"
    by blast
  from firebase_settled_gifter_excluded [OF sh] createNewAssignments_no_self new
  have "\<forall>a \<in> set new. gifter a \<noteq> g \<and> gifter a \<noteq> recipient a" by blast
  with res act show ?thesis by blast
qed

lemma startGame_assignments:
  assumes "startGame shR shG db roomId = Inr db'"
  shows "\<exists>rm'. db' roomId = Some rm'
          \<and> distinct (map recipient (activeAssignments rm'))
          \<and> (\<forall>a \<in> set (activeAssignments rm'). gifter a \<noteq> recipient a)"
proof -
  from assms obtain rm where rm: "db roomId = Some rm"
    by (auto simp: startGame_def split: option.splits)
  from startGame_cases [of db roomId rm shR shG, OF rm] assms
  have db': "db' = db(roomId \<mapsto> rm\<lparr>gameStarted := True,
             activeAssignments := createAssignments shR shG (participants rm) (budget rm)
                                    (map gifter (activeAssignments rm)),
             participants := map (withAssignments (createAssignments shR shG (participants rm)
                                    (budget rm) (map gifter (activeAssignments rm))))
                               (participants rm)\<rparr>)"
    by auto
  show ?thesis unfolding db'
    using createAssignments_recipients createAssignments_no_self by auto
qed

section \<open>The same call made twice\<close>





section \<open>Recipients that are taken already\<close>

lemma pairGifters_none:
  "\<forall>r \<in> set rs. username r \<in> used \<Longrightarrow> pairGifters rs m c gs acc used = acc"
proof (induction gs)
  case Nil
  show ?case by simp
next
  case (Cons g gs)
  from Cons.prems
  have "find (\<lambda>r. username r \<noteq> username g \<and> username r \<notin> used) rs = None"
    by (simp add: find_None_iff)
  with Cons show ?case by simp
qed

text \<open>
  \<open>firebase.ts\<close>: when every participant has reached the budget or is the recipient of a
  current assignment, the loop finds a recipient for no gifter.
\<close>

lemma createNewAssignments_no_eligible:
  assumes sh: "is_shuffle shR"
    and no: "\<forall>p \<in> set ps. bud \<le> received p \<or> username p \<in> recipient ` set cur"
  shows "createNewAssignments shR shG ps bud cur ex = []"
proof -
  have "set (shR (filter (\<lambda>p. received p < bud) ps)) = set (filter (\<lambda>p. received p < bud) ps)"
    using sh by (rule is_shuffle_set)
  with no have "\<forall>r \<in> set (shR (filter (\<lambda>p. received p < bud) ps)).
      username r \<in> set (map recipient cur)"
    by auto
  then have "\<And>m c gs. pairGifters (shR (filter (\<lambda>p. received p < bud) ps)) m c gs []
      (set (map recipient cur)) = []"
    by (rule pairGifters_none)
  then show ?thesis
    by (simp add: createNewAssignments_def Let_def)
qed

section \<open>Every reachable room has different usernames and is within the capacity\<close>

lemma joinRoom_room_ok:
  assumes inv: "\<And>rid rm. db rid = Some rm \<Longrightarrow> room_ok rm"
    and rm': "snd (joinRoom db roomId u) rid = Some rm'"
  shows "room_ok rm'"
proof (cases "db roomId")
  case None
  then have "snd (joinRoom db roomId u) = db" by (simp add: joinRoom_def)
  with rm' inv show ?thesis by simp
next
  case (Some rm)
  show ?thesis
  proof (cases "snd (joinRoom db roomId u) = db")
    case True
    with rm' inv show ?thesis by simp
  next
    case False
    with Some have none: "find (\<lambda>p. username p = u) (participants rm) = None"
      and eq: "snd (joinRoom db roomId u) = db(roomId \<mapsto> rm\<lparr>participants :=
                 arrayUnion (participants rm)
                   \<lparr>username = u, spent = 0, received = 0, isGifter = False, p_recipient = None\<rparr>\<rparr>)"
      by (auto simp: joinRoom_def Let_def split: if_splits option.splits)
    from none have nu: "u \<notin> username ` set (participants rm)"
      by (auto simp: find_None_iff)
    then have "\<lparr>username = u, spent = 0, received = 0, isGifter = False, p_recipient = None\<rparr>
                \<notin> set (participants rm)"
      by force
    then have au: "arrayUnion (participants rm)
                   \<lparr>username = u, spent = 0, received = 0, isGifter = False, p_recipient = None\<rparr>
        = participants rm @ [\<lparr>username = u, spent = 0, received = 0, isGifter = False,
                               p_recipient = None\<rparr>]"
      by (simp add: arrayUnion_def)
    from inv [OF Some] have ok: "room_ok rm" .
    show ?thesis
    proof (cases "rid = roomId")
      case True
      with rm' eq au have "rm' = rm\<lparr>participants := participants rm @
          [\<lparr>username = u, spent = 0, received = 0, isGifter = False, p_recipient = None\<rparr>]\<rparr>"
        by simp
      with ok nu show ?thesis by (auto simp: room_ok_def)
    next
      case False
      with rm' eq have "db rid = Some rm'" by simp
      then show ?thesis by (rule inv)
    qed
  qed
qed

lemma startGame_username:
  assumes "startGame shR shG db roomId = Inr db'" "db roomId = Some rm"
  shows "\<exists>rm'. db' = db(roomId \<mapsto> rm')
           \<and> map username (participants rm') = map username (participants rm)"
  using startGame_cases [of db roomId rm shR shG, OF assms(2)] assms(1)
  by (auto simp: withAssignments_fields comp_def)

lemma startGame_part002_username:
  assumes "startGame_part002 shR shG db roomId = Inr db'" "db roomId = Some rm"
  shows "\<exists>rm'. db' = db(roomId \<mapsto> rm')
           \<and> map username (participants rm') = map username (participants rm)"
  using startGame_part002_cases [of db roomId rm shR shG, OF assms(2)] assms(1)
  by (auto simp: withAssignments_fields comp_def)

lemma reachable_room_ok:
  assumes "reachable db" and "db roomId = Some rm"
  shows "room_ok rm"
  using assms
proof (induction arbitrary: roomId rm rule: reachable.induct)
  case reachable_empty
  then show ?case by simp
next
  case (reachable_createRoom db rid dat now)
  show ?case
  proof (cases "roomId = rid")
    case True
    with reachable_createRoom.prems show ?thesis
      by (auto simp: createRoom_def Let_def room_ok_def)
  next
    case False
    with reachable_createRoom.prems have "db roomId = Some rm"
      by (simp add: createRoom_def Let_def)
    then show ?thesis by (rule reachable_createRoom.IH)
  qed
next
  case (reachable_joinRoom db rid uname)
  from reachable_joinRoom.IH reachable_joinRoom.prems show ?case
    by (rule joinRoom_room_ok)
next
  case (reachable_startGame db shR shG rid db')
  from reachable_startGame.hyps(2) obtain rm0 where rm0: "db rid = Some rm0"
    by (auto simp: startGame_def split: option.splits)
  from startGame_username [OF reachable_startGame.hyps(2) rm0]
  obtain rm1 where upd: "db' = db(rid \<mapsto> rm1)"
    and un: "map username (participants rm1) = map username (participants rm0)"
    by blast
  from startGame_capacity [OF reachable_startGame.hyps(2)] upd
  have cap: "length (activeAssignments rm1) \<le> length (participants rm1) div 2"
    by auto
  show ?case
  proof (cases "roomId = rid")
    case True
    with reachable_startGame.prems upd have "rm = rm1" by simp
    with cap un reachable_startGame.IH [OF rm0] show ?thesis by (simp add: room_ok_def)
  next
    case False
    with reachable_startGame.prems upd have "db roomId = Some rm" by simp
    then show ?thesis by (rule reachable_startGame.IH)
  qed
next
  case (reachable_startGame_part002 db shR shG rid db')
  from reachable_startGame_part002.hyps(2) obtain rm0 where rm0: "db rid = Some rm0"
    by (auto simp: startGame_part002_def split: option.splits)
  from startGame_part002_username [OF reachable_startGame_part002.hyps(2) rm0]
  obtain rm1 where upd: "db' = db(rid \<mapsto> rm1)"
    and un: "map username (participants rm1) = map username (participants rm0)"
    by blast
  from startGame_part002_capacity [OF reachable_startGame_part002.hyps(2)] upd
  have cap: "length (activeAssignments rm1) \<le> length (participants rm1) div 2"
    by auto
  show ?case
  proof (cases "roomId = rid")
    case True
    with reachable_startGame_part002.prems upd have "rm = rm1" by simp
    with cap un reachable_startGame_part002.IH [OF rm0] show ?thesis by (simp add: room_ok_def)
  next
    case False
    with reachable_startGame_part002.prems upd have "db roomId = Some rm" by simp
    then show ?thesis by (rule reachable_startGame_part002.IH)
  qed
next
  case (reachable_addGift db shR shG now rid g r descr amt db')
  from reachable_addGift.hyps(2) obtain rm0 where rm0: "db rid = Some rm0"
    by (auto simp: addGift_def split: option.splits)
  from reachable_addGift.IH [OF rm0] have ok0: "room_ok rm0" .
  then have cap0: "length (activeAssignments rm0) \<le> length (participants rm0) div 2"
    by (simp add: room_ok_def)
  from addGift_capacity [of db rid rm0 shR shG now g r descr amt, OF rm0 cap0]
    addGift_fields [of db rid rm0 shR shG now g r descr amt, OF rm0]
    reachable_addGift.hyps(2)
  obtain rm1 where upd: "db' = db(rid \<mapsto> rm1)"
    and cap: "length (activeAssignments rm1) \<le> length (participants rm1) div 2"
    and ps: "participants rm1 = settledParticipants (activeAssignments rm1) g r amt (participants rm0)"
    by (metis sum.inject(2) map_upd_eqD1)
  show ?case
  proof (cases "roomId = rid")
    case True
    with reachable_addGift.prems upd have "rm = rm1" by simp
    with cap ps ok0 show ?thesis by (simp add: room_ok_def settledParticipants_username)
  next
    case False
    with reachable_addGift.prems upd have "db roomId = Some rm" by simp
    then show ?thesis by (rule reachable_addGift.IH)
  qed
next
  case (reachable_addGift_part002 db shR shG now now' rid g r descr amt db')
  from reachable_addGift_part002.hyps(2) obtain rm0 where rm0: "db rid = Some rm0"
    by (auto simp: addGift_part002_def split: option.splits)
  from reachable_addGift_part002.IH [OF rm0] have ok0: "room_ok rm0" .
  then have cap0: "length (activeAssignments rm0) \<le> length (participants rm0) div 2"
    by (simp add: room_ok_def)
  from addGift_part002_capacity [of db rid rm0 shR shG now now' g r descr amt, OF rm0 cap0]
    addGift_part002_fields [of db rid rm0 shR shG now now' g r descr amt, OF rm0]
    reachable_addGift_part002.hyps(2)
  obtain rm1 where upd: "db' = db(rid \<mapsto> rm1)"
    and cap: "length (activeAssignments rm1) \<le> length (participants rm1) div 2"
    and ps: "participants rm1 = settledParticipants (activeAssignments rm1) g r amt (participants rm0)"
    by (metis sum.inject(2) map_upd_eqD1)
  show ?case
  proof (cases "roomId = rid")
    case True
    with reachable_addGift_part002.prems upd have "rm = rm1" by simp
    with cap ps ok0 show ?thesis by (simp add: room_ok_def settledParticipants_username)
  next
    case False
    with reachable_addGift_part002.prems upd have "db roomId = Some rm" by simp
    then show ?thesis by (rule reachable_addGift_part002.IH)
  qed
qed

lemma reachable_started3: "reachable [''r'' \<mapsto> started3]"
proof -
  let ?dat = "\<lparr>cr_roomName = ''party'', cr_username = ''A'', cr_budget = 100\<rparr>"
  have 1: "reachable (snd (createRoom Map.empty ''r'' ?dat 0))"
    by (rule reachable_createRoom) (rule reachable_empty)
  have "reachable (snd (joinRoom (snd (createRoom Map.empty ''r'' ?dat 0)) ''r'' ''B''))"
    using 1 by (rule reachable_joinRoom)
  then have "reachable (snd (joinRoom (snd (joinRoom (snd (createRoom Map.empty ''r'' ?dat 0))
      ''r'' ''B'')) ''r'' ''C''))"
    by (rule reachable_joinRoom)
  moreover have "snd (joinRoom (snd (joinRoom (snd (createRoom Map.empty ''r'' ?dat 0))
      ''r'' ''B'')) ''r'' ''C'') = [''r'' \<mapsto> lobby3]"
    by (simp add: createRoom_def joinRoom_def arrayUnion_def person_def party_def lobby3_def)
  ultimately have l: "reachable [''r'' \<mapsto> lobby3]" by simp
  have "startGame id id [''r'' \<mapsto> lobby3] ''r'' = Inr [''r'' \<mapsto> started3]"
    by (simp add: startGame_def createAssignments_def withAssignments_def person_def
        pair_def party_def lobby3_def started3_def)
  with l show ?thesis by (rule reachable_startGame)
qed

section \<open>Joining twice\<close>

lemma find_snoc_new:
  "find P xs = None \<Longrightarrow> P x \<Longrightarrow> find P (xs @ [x]) = Some x"
  by (induction xs) (auto split: if_splits)

lemma joinRoom_twice:
  "joinRoom (snd (joinRoom db roomId u)) roomId u = joinRoom db roomId u"
proof (cases "db roomId")
  case None
  then show ?thesis by (simp add: joinRoom_def)
next
  case (Some rm)
  show ?thesis
  proof (cases "find (\<lambda>p. username p = u) (participants rm)")
    case (Some e)
    with \<open>db roomId = Some rm\<close> show ?thesis by (simp add: joinRoom_def)
  next
    case None
    let ?new = "\<lparr>username = u, spent = 0, received = 0, isGifter = False, p_recipient = None\<rparr>"
    show ?thesis
    proof (cases "gameStarted rm")
      case True
      with None \<open>db roomId = Some rm\<close> show ?thesis by (simp add: joinRoom_def)
    next
      case False
      from None have "?new \<notin> set (participants rm)"
        by (force simp: find_None_iff)
      then have au: "arrayUnion (participants rm) ?new = participants rm @ [?new]"
        by (simp add: arrayUnion_def)
      have f: "find (\<lambda>p. username p = u) (participants rm @ [?new]) = Some ?new"
        using None by (intro find_snoc_new) simp_all
      from None False \<open>db roomId = Some rm\<close> au
      have 1: "joinRoom db roomId u
          = (True, db(roomId \<mapsto> rm\<lparr>participants := participants rm @ [?new]\<rparr>))"
        by (simp add: joinRoom_def)
      have 2: "joinRoom (db(roomId \<mapsto> rm\<lparr>participants := participants rm @ [?new]\<rparr>)) roomId u
          = (True, db(roomId \<mapsto> rm\<lparr>participants := participants rm @ [?new]\<rparr>))"
        using f by (simp add: joinRoom_def)
      from 1 2 show ?thesis by simp
    qed
  qed
qed

section \<open>The claims\<close>

lemmas rooms =
  person_def pair_def party_def present_def present_hidden_def lobby3_def lobby2_def
  started3_def settled3_def settled3_twice_def settled3_negative_def midgame4_def started4_def
  after4_def lobby4_def selfgift2_def regifter3_def regifter3_twice_def doubled4_def
  large3_first_def large3_second_def large3_third_def large3_fourth_def
  paired4_def halfway4_def nearly_done4_def overbooked4_def

lemmas steps = addGift_def addGift_part002_def startGame_def startGame_part002_def
  createAssignments_def createNewAssignments_def createAssignments_part002_def
  createNewAssignments_part002_def withAssignments_def settleAmounts_def clearGifter_def
  arrayUnion_def roomAfter_def jsAdd_exact

text \<open>
  Claim C10. \<open>joinRoom\<close> is idempotent: when the room already has a participant with the
  given username, it returns \<open>true\<close> and the store (so the participant list) is unchanged;
  when no participant has the username and the game has not started, it returns \<open>true\<close>
  and the participant list gains exactly one entry, at the end, with
  \<open>spent = 0\<close>, \<open>received = 0\<close> and \<open>isGifter = false\<close>. Joining a second time gives
  the result and the store of the first call. \<open>joinRoom\<close> is the same text in both
  revisions of the module.
\<close>

theorem joinRoom_idempotent:
  assumes "db roomId = Some rm"
  shows "((\<exists>p \<in> set (participants rm). username p = u) \<longrightarrow> joinRoom db roomId u = (True, db))
       \<and> ((\<forall>p \<in> set (participants rm). username p \<noteq> u) \<and> \<not> gameStarted rm \<longrightarrow>
            joinRoom db roomId u =
              (True, db(roomId \<mapsto> rm\<lparr>participants := participants rm @
                 [\<lparr>username = u, spent = 0, received = 0, isGifter = False,
                   p_recipient = None\<rparr>]\<rparr>)))
       \<and> joinRoom (snd (joinRoom db roomId u)) roomId u = joinRoom db roomId u"
proof (intro conjI impI)
  assume "\<exists>p \<in> set (participants rm). username p = u"
  then have "find (\<lambda>p. username p = u) (participants rm) \<noteq> None"
    by (auto simp: find_None_iff)
  then obtain e where "find (\<lambda>p. username p = u) (participants rm) = Some e"
    by blast
  with assms show "joinRoom db roomId u = (True, db)"
    by (simp add: joinRoom_def)
next
  assume a: "(\<forall>p \<in> set (participants rm). username p \<noteq> u) \<and> \<not> gameStarted rm"
  then have none: "find (\<lambda>p. username p = u) (participants rm) = None"
    by (auto simp: find_None_iff)
  from a have "\<lparr>username = u, spent = 0, received = 0, isGifter = False, p_recipient = None\<rparr>
                 \<notin> set (participants rm)"
    by force
  with assms none a show "joinRoom db roomId u =
              (True, db(roomId \<mapsto> rm\<lparr>participants := participants rm @
                 [\<lparr>username = u, spent = 0, received = 0, isGifter = False,
                   p_recipient = None\<rparr>]\<rparr>))"
    by (simp add: joinRoom_def arrayUnion_def)
next
  show "joinRoom (snd (joinRoom db roomId u)) roomId u = joinRoom db roomId u"
    by (rule joinRoom_twice)
qed

theorem joinRoom_idempotent_witness:
  "joinRoom [''r'' \<mapsto> started3] ''r'' ''B'' = (True, [''r'' \<mapsto> started3])
   \<and> joinRoom [''r'' \<mapsto> lobby3] ''r'' ''D'' =
        (True, [''r'' \<mapsto> party False
           [person ''A'' 0 0 None, person ''B'' 0 0 None, person ''C'' 0 0 None,
            person ''D'' 0 0 None] [] []])
   \<and> joinRoom (snd (joinRoom [''r'' \<mapsto> lobby3] ''r'' ''D'')) ''r'' ''D''
        = joinRoom [''r'' \<mapsto> lobby3] ''r'' ''D''"
proof -
  have s: "[''r'' \<mapsto> started3] ''r'' = Some started3" by simp
  have l: "[''r'' \<mapsto> lobby3] ''r'' = Some lobby3" by simp
  have b: "\<exists>p \<in> set (participants started3). username p = ''B''"
    by (simp add: rooms)
  have d: "(\<forall>p \<in> set (participants lobby3). username p \<noteq> ''D'') \<and> \<not> gameStarted lobby3"
    by (simp add: rooms)
  note t = joinRoom_idempotent [of "[''r'' \<mapsto> started3]" "''r''" started3 "''B''", OF s]
  note u = joinRoom_idempotent [of "[''r'' \<mapsto> lobby3]" "''r''" lobby3 "''D''", OF l]
  from t [THEN conjunct1, THEN mp, OF b]
  have 1: "joinRoom [''r'' \<mapsto> started3] ''r'' ''B'' = (True, [''r'' \<mapsto> started3])" .
  from u [THEN conjunct2, THEN conjunct1, THEN mp, OF d]
  have 2: "joinRoom [''r'' \<mapsto> lobby3] ''r'' ''D'' =
     (True, [''r'' \<mapsto> party False
           [person ''A'' 0 0 None, person ''B'' 0 0 None, person ''C'' 0 0 None,
            person ''D'' 0 0 None] [] []])"
    by (simp add: rooms)
  from u [THEN conjunct2, THEN conjunct2]
  have 3: "joinRoom (snd (joinRoom [''r'' \<mapsto> lobby3] ''r'' ''D'')) ''r'' ''D''
        = joinRoom [''r'' \<mapsto> lobby3] ''r'' ''D''" .
  from 1 2 3 show ?thesis by (intro conjI)
qed

text \<open>
  Claim C2 says that after \<open>addGift\<close> the sum of \<open>spent\<close> still equals the sum of
  \<open>received\<close>. The two balances are updated with the addition of JavaScript numbers,
  which is exact only up to \<open>2^53\<close>. In \<open>large3_third\<close> (reached from the lobby by
  \<open>startGame\<close>, the form of \<open>part_001\<close> and two settlements) the usernames are pairwise
  different, A gifts to C, the two sums are both \<open>2^53 + 2\<close> and A's \<open>spent\<close> is \<open>2^53\<close>.
  When A settles the amount 1, A's \<open>spent\<close> stays \<open>2^53\<close> and C's \<open>received\<close> goes from 0 to
  1: afterwards the sums are \<open>2^53 + 2\<close> and \<open>2^53 + 3\<close>. In the revision \<open>part_002\<close> the
  same call leaves the same balances.
\<close>

theorem addGift_conserves_counterexample:
  "startGame id id [''r'' \<mapsto> lobby3] ''r'' = Inr [''r'' \<mapsto> started3]
   \<and> handleAddGift_part001 (\<lambda>s. Some 9007199254740992) id (addGift id id 1000)
        [''r'' \<mapsto> started3] ''r'' (Some (person ''A'' 0 0 (Some ''B''))) ''scarf''
        ''9007199254740992''
       = (None, [''r'' \<mapsto> large3_first])
   \<and> addGift id id 2000 [''r'' \<mapsto> large3_first] ''r'' ''B'' ''A'' ''scarf'' 1
        = Inr [''r'' \<mapsto> large3_second]
   \<and> addGift id id 3000 [''r'' \<mapsto> large3_second] ''r'' ''C'' ''A'' ''scarf'' 1
        = Inr [''r'' \<mapsto> large3_third]
   \<and> distinct (map username (participants large3_third))
   \<and> activeAssignments large3_third = [pair ''A'' ''C'']
   \<and> sum_list (map spent (participants large3_third))
        = sum_list (map received (participants large3_third))
   \<and> addGift id id 4000 [''r'' \<mapsto> large3_third] ''r'' ''A'' ''C'' ''scarf'' 1
        = Inr [''r'' \<mapsto> large3_fourth]
   \<and> map spent (participants large3_third) = [9007199254740992, 1, 1]
   \<and> map spent (participants large3_fourth) = [9007199254740992, 1, 1]
   \<and> map received (participants large3_third) = [2, 9007199254740992, 0]
   \<and> map received (participants large3_fourth) = [2, 9007199254740992, 1]
   \<and> sum_list (map spent (participants large3_fourth)) = 9007199254740994
   \<and> sum_list (map received (participants large3_fourth)) = 9007199254740995
   \<and> sum_list (map spent (participants large3_fourth))
        \<noteq> sum_list (map received (participants large3_fourth))
   \<and> map_option (\<lambda>rm. (map spent (participants rm), map received (participants rm)))
        (roomAfter (addGift_part002 id id 4000 4000 [''r'' \<mapsto> large3_third] ''r''
                      ''A'' ''C'' ''scarf'' 1) ''r'')
       = Some ([9007199254740992, 1, 1], [2, 9007199254740992, 1])"
  by (simp add: steps rooms jsAdd_rounds handleAddGift_part001_def)

text \<open>
  Claim C2 as amended. Balances and amount are integers, as \<open>parseInt\<close> yields them.
  In a room whose usernames are pairwise different (the data model's
  key; it holds of every room of a reachable store, \<open>reachable_room_ok\<close>), with gifter and
  recipient two different participants, the sum of \<open>spent\<close> equal to the sum of
  \<open>received\<close>, and the gifter's \<open>spent\<close> plus the amount and the recipient's \<open>received\<close>
  plus the amount at most \<open>2^53\<close> in magnitude (so that the two additions are exact),
  \<open>addGift\<close> succeeds and the two sums are equal afterwards: each has grown by the amount.
  Exactly one participant is named as the gifter and exactly one as the recipient; the
  gifter's \<open>spent\<close> and the recipient's \<open>received\<close> are the only balances that change,
  both by the amount. This holds for both revisions of \<open>addGift\<close>.
\<close>

theorem addGift_conserves:
  assumes rm: "db roomId = Some rm"
    and dist: "distinct (map username (participants rm))"
    and g: "g \<in> username ` set (participants rm)"
    and r: "r \<in> username ` set (participants rm)"
    and ne: "g \<noteq> r"
    and bal: "sum_list (map spent (participants rm)) = sum_list (map received (participants rm))"
    and exact: "\<forall>p \<in> set (participants rm).
        (username p = g \<longrightarrow> \<bar>spent p + amt\<bar> \<le> 9007199254740992)
        \<and> (username p = r \<longrightarrow> \<bar>received p + amt\<bar> \<le> 9007199254740992)"
  shows "(\<exists>rm'. addGift shR shG now db roomId g r d amt = Inr (db(roomId \<mapsto> rm'))
            \<and> sum_list (map spent (participants rm')) = sum_list (map received (participants rm'))
            \<and> sum_list (map spent (participants rm')) = sum_list (map spent (participants rm)) + amt
            \<and> map spent (participants rm')
                = map (\<lambda>p. if username p = g then spent p + amt else spent p) (participants rm)
            \<and> map received (participants rm')
                = map (\<lambda>p. if username p = r then received p + amt else received p) (participants rm))
       \<and> (\<exists>rm'. addGift_part002 shR shG now now' db roomId g r d amt = Inr (db(roomId \<mapsto> rm'))
            \<and> sum_list (map spent (participants rm')) = sum_list (map received (participants rm'))
            \<and> sum_list (map spent (participants rm')) = sum_list (map spent (participants rm)) + amt
            \<and> map spent (participants rm')
                = map (\<lambda>p. if username p = g then spent p + amt else spent p) (participants rm)
            \<and> map received (participants rm')
                = map (\<lambda>p. if username p = r then received p + amt else received p) (participants rm))
       \<and> length (filter (\<lambda>p. username p = g) (participants rm)) = 1
       \<and> length (filter (\<lambda>p. username p = r) (participants rm)) = 1"
proof -
  let ?ps = "participants rm"
  have sp: "\<And>as. map spent (settledParticipants as g r amt ?ps)
      = map (\<lambda>p. if username p = g then spent p + amt else spent p) ?ps"
    unfolding settledParticipants_spent using exact by (intro map_cong refl) (simp add: jsAdd_exact)
  have rec: "\<And>as. map received (settledParticipants as g r amt ?ps)
      = map (\<lambda>p. if username p = r then received p + amt else received p) ?ps"
    unfolding settledParticipants_received using exact ne
    by (intro map_cong refl) (auto simp: jsAdd_exact)
  have S: "sum_list (map (\<lambda>p. if username p = g then spent p + amt else spent p) ?ps)
      = sum_list (map spent ?ps) + amt"
    using sum_spent_settled [OF dist, of g amt] g by simp
  have eq: "(\<lambda>p. if username p \<noteq> g \<and> username p = r then received p + amt else received p)
      = (\<lambda>p. if username p = r then received p + amt else received p)"
    using ne by auto
  have "sum_list (map (\<lambda>p. if username p \<noteq> g \<and> username p = r then received p + amt
                          else received p) ?ps)
      = sum_list (map received ?ps) + amt"
    using sum_received_settled [OF dist ne, of amt] r by simp
  then have R: "sum_list (map (\<lambda>p. if username p = r then received p + amt else received p) ?ps)
      = sum_list (map received ?ps) + amt"
    by (simp only: eq)
  have ok: "\<And>rm'. participants rm' = settledParticipants (activeAssignments rm') g r amt ?ps
     \<Longrightarrow> sum_list (map spent (participants rm')) = sum_list (map received (participants rm'))
            \<and> sum_list (map spent (participants rm')) = sum_list (map spent ?ps) + amt
            \<and> map spent (participants rm')
                = map (\<lambda>p. if username p = g then spent p + amt else spent p) ?ps
            \<and> map received (participants rm')
                = map (\<lambda>p. if username p = r then received p + amt else received p) ?ps"
    by (simp add: sp rec S R bal)
  from addGift_fields [of db roomId rm shR shG now g r d amt, OF rm] ok
  have 1: "\<exists>rm'. addGift shR shG now db roomId g r d amt = Inr (db(roomId \<mapsto> rm'))
            \<and> sum_list (map spent (participants rm')) = sum_list (map received (participants rm'))
            \<and> sum_list (map spent (participants rm')) = sum_list (map spent ?ps) + amt
            \<and> map spent (participants rm')
                = map (\<lambda>p. if username p = g then spent p + amt else spent p) ?ps
            \<and> map received (participants rm')
                = map (\<lambda>p. if username p = r then received p + amt else received p) ?ps"
    by blast
  from addGift_part002_fields [of db roomId rm shR shG now now' g r d amt, OF rm] ok
  have 2: "\<exists>rm'. addGift_part002 shR shG now now' db roomId g r d amt = Inr (db(roomId \<mapsto> rm'))
            \<and> sum_list (map spent (participants rm')) = sum_list (map received (participants rm'))
            \<and> sum_list (map spent (participants rm')) = sum_list (map spent ?ps) + amt
            \<and> map spent (participants rm')
                = map (\<lambda>p. if username p = g then spent p + amt else spent p) ?ps
            \<and> map received (participants rm')
                = map (\<lambda>p. if username p = r then received p + amt else received p) ?ps"
    by blast
  from 1 2 one_named [OF dist g] one_named [OF dist r] show ?thesis by blast
qed

theorem addGift_conserves_witness:
  "(\<exists>rm'. addGift id id 1000 [''r'' \<mapsto> started3] ''r'' ''A'' ''B'' ''scarf'' 40
             = Inr ([''r'' \<mapsto> started3](''r'' \<mapsto> rm'))
        \<and> sum_list (map spent (participants rm')) = sum_list (map received (participants rm'))
        \<and> sum_list (map spent (participants rm')) = 40
        \<and> map spent (participants rm') = [40, 0, 0]
        \<and> map received (participants rm') = [0, 40, 0])
   \<and> (\<exists>rm'. addGift_part002 id id 1000 1001 [''r'' \<mapsto> started3] ''r'' ''A'' ''B'' ''scarf'' 40
             = Inr ([''r'' \<mapsto> started3](''r'' \<mapsto> rm'))
        \<and> sum_list (map spent (participants rm')) = sum_list (map received (participants rm'))
        \<and> sum_list (map spent (participants rm')) = 40
        \<and> map spent (participants rm') = [40, 0, 0]
        \<and> map received (participants rm') = [0, 40, 0])"
proof -
  have 1: "[''r'' \<mapsto> started3] ''r'' = Some started3" by simp
  have 2: "distinct (map username (participants started3))" by (simp add: rooms)
  have 3: "''A'' \<in> username ` set (participants started3)" by (simp add: rooms)
  have 4: "''B'' \<in> username ` set (participants started3)" by (simp add: rooms)
  have 5: "''A'' \<noteq> ''B''" by simp
  have 6: "sum_list (map spent (participants started3))
           = sum_list (map received (participants started3))"
    by (simp add: rooms)
  have 7: "\<forall>p \<in> set (participants started3).
        (username p = ''A'' \<longrightarrow> \<bar>spent p + 40\<bar> \<le> 9007199254740992)
        \<and> (username p = ''B'' \<longrightarrow> \<bar>received p + 40\<bar> \<le> 9007199254740992)"
    by (simp add: rooms)
  have ps: "participants started3
      = [person ''A'' 0 0 (Some ''B''), person ''B'' 0 0 None, person ''C'' 0 0 None]"
    by (simp add: rooms)
  from addGift_conserves [of "[''r'' \<mapsto> started3]" "''r''" started3 "''A''" "''B''" 40
      id id 1000 "''scarf''" 1001, OF 1 2 3 4 5 6 7]
  show ?thesis unfolding ps by (simp add: person_def)
qed

text \<open>
  The capacity bound. In every room of a reachable store the number of active assignments
  is at most \<open>floor(n / 2)\<close>, \<open>n\<close> the number of participants. The assignment computation
  never lifts it above the bound: when the assignments already active are within the
  bound, they and the new ones together are; \<open>startGame\<close> stores a list within the bound
  and \<open>addGift\<close> keeps a room within it. When the active assignments have reached the
  bound, or no participant has \<open>received < budget\<close>, or no participant is a candidate
  gifter, the computation returns the empty list, so the merged list is the list of the
  assignments already active. In both revisions.
\<close>

theorem capacity_bound:
  "(reachable db \<and> db roomId = Some rm \<longrightarrow>
      length (activeAssignments rm) \<le> length (participants rm) div 2)
   \<and> (length cur \<le> length ps div 2 \<longrightarrow>
      length (cur @ createNewAssignments shR shG ps bud cur ex) \<le> length ps div 2
      \<and> length (cur @ createNewAssignments_part002 shR shG ps bud cur) \<le> length ps div 2)
   \<and> (length ps div 2 \<le> length cur
        \<or> (\<forall>p \<in> set ps. bud \<le> received p)
        \<or> (\<forall>p \<in> set ps. username p \<in> gifter ` set cur \<or> username p \<in> set ex
               \<or> (spent p \<noteq> 0 \<and> isGifter p))
       \<longrightarrow> createNewAssignments shR shG ps bud cur ex = []
           \<and> cur @ createNewAssignments shR shG ps bud cur ex = cur)
   \<and> (length ps div 2 \<le> length cur
        \<or> (\<forall>p \<in> set ps. bud \<le> received p)
        \<or> (\<forall>p \<in> set ps. isGifter p \<or> username p \<in> gifter ` set cur)
       \<longrightarrow> createNewAssignments_part002 shR shG ps bud cur = []
           \<and> cur @ createNewAssignments_part002 shR shG ps bud cur = cur)
   \<and> (db roomId = Some rm \<and> length (activeAssignments rm) \<le> length (participants rm) div 2 \<longrightarrow>
        (\<exists>rm'. addGift shR shG now db roomId g r d amt = Inr (db(roomId \<mapsto> rm'))
           \<and> length (participants rm') = length (participants rm)
           \<and> length (activeAssignments rm') \<le> length (participants rm') div 2)
        \<and> (\<exists>rm'. addGift_part002 shR shG now now' db roomId g r d amt = Inr (db(roomId \<mapsto> rm'))
           \<and> length (participants rm') = length (participants rm)
           \<and> length (activeAssignments rm') \<le> length (participants rm') div 2))
   \<and> (startGame shR shG db roomId = Inr db' \<longrightarrow>
        (\<exists>rm'. db' roomId = Some rm' \<and> gameStarted rm'
           \<and> length (activeAssignments rm') \<le> length (participants rm') div 2))
   \<and> (startGame_part002 shR shG db roomId = Inr db' \<longrightarrow>
        (\<exists>rm'. db' roomId = Some rm' \<and> gameStarted rm'
           \<and> length (activeAssignments rm') \<le> length (participants rm') div 2))"
proof (intro conjI impI)
  assume "reachable db \<and> db roomId = Some rm"
  then have "room_ok rm" using reachable_room_ok by blast
  then show "length (activeAssignments rm) \<le> length (participants rm) div 2"
    by (simp add: room_ok_def)
next
  assume "length cur \<le> length ps div 2"
  then show "length (cur @ createNewAssignments shR shG ps bud cur ex) \<le> length ps div 2"
    using createNewAssignments_length [of cur ps shR shG bud ex] by simp
next
  assume "length cur \<le> length ps div 2"
  then show "length (cur @ createNewAssignments_part002 shR shG ps bud cur) \<le> length ps div 2"
    using createNewAssignments_part002_length [of cur ps shR shG bud] by simp
next
  assume a: "length ps div 2 \<le> length cur
        \<or> (\<forall>p \<in> set ps. bud \<le> received p)
        \<or> (\<forall>p \<in> set ps. username p \<in> gifter ` set cur \<or> username p \<in> set ex
               \<or> (spent p \<noteq> 0 \<and> isGifter p))"
  then show e: "createNewAssignments shR shG ps bud cur ex = []"
    by (rule createNewAssignments_empty)
  then show "cur @ createNewAssignments shR shG ps bud cur ex = cur" by simp
next
  assume a: "length ps div 2 \<le> length cur
        \<or> (\<forall>p \<in> set ps. bud \<le> received p)
        \<or> (\<forall>p \<in> set ps. isGifter p \<or> username p \<in> gifter ` set cur)"
  then show e: "createNewAssignments_part002 shR shG ps bud cur = []"
    by (rule createNewAssignments_part002_empty)
  then show "cur @ createNewAssignments_part002 shR shG ps bud cur = cur" by simp
next
  assume a: "db roomId = Some rm \<and> length (activeAssignments rm) \<le> length (participants rm) div 2"
  then show "\<exists>rm'. addGift shR shG now db roomId g r d amt = Inr (db(roomId \<mapsto> rm'))
           \<and> length (participants rm') = length (participants rm)
           \<and> length (activeAssignments rm') \<le> length (participants rm') div 2"
    using addGift_capacity [of db roomId rm] by blast
next
  assume a: "db roomId = Some rm \<and> length (activeAssignments rm) \<le> length (participants rm) div 2"
  then show "\<exists>rm'. addGift_part002 shR shG now now' db roomId g r d amt = Inr (db(roomId \<mapsto> rm'))
           \<and> length (participants rm') = length (participants rm)
           \<and> length (activeAssignments rm') \<le> length (participants rm') div 2"
    using addGift_part002_capacity [of db roomId rm] by blast
next
  assume "startGame shR shG db roomId = Inr db'"
  then show "\<exists>rm'. db' roomId = Some rm' \<and> gameStarted rm'
           \<and> length (activeAssignments rm') \<le> length (participants rm') div 2"
    by (rule startGame_capacity)
next
  assume "startGame_part002 shR shG db roomId = Inr db'"
  then show "\<exists>rm'. db' roomId = Some rm' \<and> gameStarted rm'
           \<and> length (activeAssignments rm') \<le> length (participants rm') div 2"
    by (rule startGame_part002_capacity)
qed

theorem capacity_bound_witness:
  "reachable [''r'' \<mapsto> started3]
   \<and> length (activeAssignments started3) \<le> length (participants started3) div 2
   \<and> length ([pair ''C'' ''D''] @ createNewAssignments id id (participants after4) 100
             [pair ''C'' ''D''] [''D'']) \<le> length (participants after4) div 2
   \<and> length ([pair ''C'' ''D''] @ createNewAssignments_part002 id id (participants after4) 100
             [pair ''C'' ''D'']) \<le> length (participants after4) div 2
   \<and> [pair ''B'' ''A''] @ createNewAssignments id id (participants settled3) 100
             [pair ''B'' ''A''] [''A''] = [pair ''B'' ''A'']
   \<and> [pair ''B'' ''A''] @ createNewAssignments_part002 id id (participants settled3) 100
             [pair ''B'' ''A''] = [pair ''B'' ''A'']
   \<and> (\<exists>rm'. addGift id id 1000 [''r'' \<mapsto> started3] ''r'' ''A'' ''B'' ''scarf'' 40
              = Inr ([''r'' \<mapsto> started3](''r'' \<mapsto> rm'))
           \<and> length (participants rm') = length (participants started3)
           \<and> length (activeAssignments rm') \<le> length (participants rm') div 2)
   \<and> (\<exists>rm'. addGift_part002 id id 1000 1001 [''r'' \<mapsto> started3] ''r'' ''A'' ''B'' ''scarf'' 40
              = Inr ([''r'' \<mapsto> started3](''r'' \<mapsto> rm'))
           \<and> length (participants rm') = length (participants started3)
           \<and> length (activeAssignments rm') \<le> length (participants rm') div 2)
   \<and> (\<exists>rm'. [''r'' \<mapsto> started3] ''r'' = Some rm' \<and> gameStarted rm'
           \<and> length (activeAssignments rm') \<le> length (participants rm') div 2)"
proof -
  let ?db = "[''r'' \<mapsto> started3]"
  let ?ldb = "[''r'' \<mapsto> lobby3]"
  have h1: "length [pair ''C'' ''D''] \<le> length (participants after4) div 2"
    by (simp add: rooms)
  have h2: "length (participants settled3) div 2 \<le> length [pair ''B'' ''A'']"
    by (simp add: rooms)
  have h3: "?db ''r'' = Some started3
      \<and> length (activeAssignments started3) \<le> length (participants started3) div 2"
    by (simp add: rooms)
  have h4: "startGame id id ?ldb ''r'' = Inr ?db"
    by (simp add: steps rooms)
  note a = capacity_bound [where cur = "[pair ''C'' ''D'']" and ps = "participants after4"
      and shR = id and shG = id and bud = 100 and ex = "[''D'']" and db = ?db
      and roomId = "''r''" and rm = started3 and now = 1000 and g = "''A''" and r = "''B''"
      and d = "''scarf''" and amt = 40 and now' = 1001 and db' = ?db]
  note b = capacity_bound [where cur = "[pair ''B'' ''A'']" and ps = "participants settled3"
      and shR = id and shG = id and bud = 100 and ex = "[''A'']" and db = ?ldb
      and roomId = "''r''" and rm = lobby3 and now = 1000 and g = "''A''" and r = "''B''"
      and d = "''scarf''" and amt = 40 and now' = 1001 and db' = ?db]
  from a [THEN conjunct2, THEN conjunct1] h1
  have 1: "length ([pair ''C'' ''D''] @ createNewAssignments id id (participants after4) 100
             [pair ''C'' ''D''] [''D'']) \<le> length (participants after4) div 2
     \<and> length ([pair ''C'' ''D''] @ createNewAssignments_part002 id id (participants after4) 100
             [pair ''C'' ''D'']) \<le> length (participants after4) div 2"
    by (rule mp)
  from b [THEN conjunct2, THEN conjunct2, THEN conjunct1] h2
  have 2: "[pair ''B'' ''A''] @ createNewAssignments id id (participants settled3) 100
             [pair ''B'' ''A''] [''A''] = [pair ''B'' ''A'']"
    by blast
  from b [THEN conjunct2, THEN conjunct2, THEN conjunct2, THEN conjunct1] h2
  have 3: "[pair ''B'' ''A''] @ createNewAssignments_part002 id id (participants settled3) 100
             [pair ''B'' ''A''] = [pair ''B'' ''A'']"
    by blast
  from a [THEN conjunct2, THEN conjunct2, THEN conjunct2, THEN conjunct2, THEN conjunct1] h3
  have 4: "(\<exists>rm'. addGift id id 1000 ?db ''r'' ''A'' ''B'' ''scarf'' 40
              = Inr (?db(''r'' \<mapsto> rm'))
           \<and> length (participants rm') = length (participants started3)
           \<and> length (activeAssignments rm') \<le> length (participants rm') div 2)
   \<and> (\<exists>rm'. addGift_part002 id id 1000 1001 ?db ''r'' ''A'' ''B'' ''scarf'' 40
              = Inr (?db(''r'' \<mapsto> rm'))
           \<and> length (participants rm') = length (participants started3)
           \<and> length (activeAssignments rm') \<le> length (participants rm') div 2)"
    by (rule mp)
  from b [THEN conjunct2, THEN conjunct2, THEN conjunct2, THEN conjunct2, THEN conjunct2, THEN conjunct1] h4
  have 5: "\<exists>rm'. ?db ''r'' = Some rm' \<and> gameStarted rm'
           \<and> length (activeAssignments rm') \<le> length (participants rm') div 2"
    by (rule mp)
  have h0: "reachable ?db \<and> ?db ''r'' = Some started3"
    using reachable_started3 by simp
  from a [THEN conjunct1] h0
  have 0: "length (activeAssignments started3) \<le> length (participants started3) div 2"
    by (rule mp)
  from reachable_started3 0 1 2 3 4 5 show ?thesis
    by (intro conjI) (erule conjunct1 conjunct2 | assumption)+
qed

text \<open>
  Claim C6: the active assignments never exceed \<open>floor(n / 2)\<close>, and the computation
  returns the empty set when the bound is reached or there are no eligible recipients or
  no candidate gifters. The bound, and the empty result when the bound is reached, when
  nobody is below the budget and when nobody is a candidate gifter, hold in both
  revisions (\<open>capacity_bound\<close>). An eligible recipient is a participant below the budget
  who is not the recipient of an active assignment: when there is none, \<open>firebase.ts\<close>
  returns the empty list (\<open>createNewAssignments_no_eligible\<close>), the revision \<open>part_002\<close>
  does not, as it never looks at the current recipients. In a game of four run by
  \<open>part_002\<close>, with A gifting to B and D to C, A and D have received the budget and B
  and C nothing; when D settles 100 for C, only B is below the budget and B is A's
  recipient, yet the computation returns the assignment of C to B and the active
  assignments are A to B and C to B.
\<close>

theorem part002_taken_recipient:
  "startGame_part002 (rev \<circ> rotate1) rotate1 [''r'' \<mapsto> lobby4] ''r'' = Inr [''r'' \<mapsto> paired4]
   \<and> addGift_part002 id id 1000 1000 [''r'' \<mapsto> paired4] ''r'' ''B'' ''A'' ''scarf'' 100
        = Inr [''r'' \<mapsto> halfway4]
   \<and> addGift_part002 rev rev 2000 2000 [''r'' \<mapsto> halfway4] ''r'' ''C'' ''D'' ''scarf'' 100
        = Inr [''r'' \<mapsto> nearly_done4]
   \<and> activeAssignments nearly_done4 = [pair ''A'' ''B'', pair ''D'' ''C'']
   \<and> addGift_part002 id rotate1 3000 3000 [''r'' \<mapsto> nearly_done4] ''r'' ''D'' ''C'' ''scarf'' 100
        = Inr [''r'' \<mapsto> overbooked4]
   \<and> activeAssignments overbooked4 = [pair ''A'' ''B'', pair ''C'' ''B'']
   \<and> map received
        (map (clearGifter ''D'') (map (settleAmounts ''D'' ''C'' 100) (participants nearly_done4)))
        = [100, 0, 100, 100]
   \<and> filter (\<lambda>p. received p < 100 \<and> username p \<notin> recipient ` set [pair ''A'' ''B''])
        (map (clearGifter ''D'') (map (settleAmounts ''D'' ''C'' 100) (participants nearly_done4)))
        = []
   \<and> createNewAssignments_part002 id rotate1
        (map (clearGifter ''D'') (map (settleAmounts ''D'' ''C'' 100) (participants nearly_done4)))
        100 [pair ''A'' ''B'']
      = [pair ''C'' ''B'']
   \<and> createNewAssignments id rotate1
        (map (clearGifter ''D'') (map (settleAmounts ''D'' ''C'' 100) (participants nearly_done4)))
        100 [pair ''A'' ''B''] [''D'']
      = []"
  by (simp add: steps rooms)




text \<open>
  In the revision \<open>part_002\<close> the room written by the first call can hold the settled
  pair again: on \<open>started3\<close>, with the recipients' shuffle a rotation, the call of A for B
  assigns A to B anew, and the same call made again settles that assignment.
\<close>

lemma addGift_part002_same_pair_again:
  "map_option activeAssignments
     (roomAfter (addGift_part002 rotate1 id 1000 1000 [''r'' \<mapsto> started3] ''r''
                   ''A'' ''B'' ''scarf'' 40) ''r'')
     = Some [pair ''A'' ''B'']"
  by (simp add: steps rooms)

text \<open>
  Claim C7 says that \<open>addGift\<close> fails with "invalid amount" before any mutation when the
  amount is not positive. \<open>addGift\<close> has no such check: called on \<open>started3\<close> for A's
  assignment to B with the amount \<open>-5\<close>, it succeeds, A's \<open>spent\<close> and B's \<open>received\<close>
  become \<open>-5\<close>, the gift is in the ledger and the assignment is replaced.
\<close>

theorem addGift_invalid_amount_counterexample:
  "(-5 :: int) \<le> 0
   \<and> addGift id id 1000 [''r'' \<mapsto> started3] ''r'' ''A'' ''B'' ''scarf'' (-5)
        = Inr [''r'' \<mapsto> settled3_negative]
   \<and> settled3_negative \<noteq> started3
   \<and> map spent (participants settled3_negative) = [-5, 0, 0]
   \<and> map received (participants settled3_negative) = [0, -5, 0]
   \<and> map amount (gifts settled3_negative) = [-5]
   \<and> activeAssignments settled3_negative = [pair ''B'' ''A'']"
  by (simp add: steps rooms)

text \<open>
  The amount is checked by the caller: \<open>handleAddGift\<close> returns with an error message and
  without calling \<open>addGift\<close> when \<open>parseInt\<close> gives \<open>NaN\<close> or a number that is not
  positive.
\<close>

lemma handleAddGift_rejects:
  assumes "parseInt giftAmount = None \<or> (parseInt giftAmount = Some amt \<and> amt \<le> 0)"
  shows "handleAddGift parseInt trim addGiftFn db roomId currentUser rm giftDescription giftAmount
           \<in> {(Some FillInAllFields, db), (Some EnterValidAmount, db)}"
  using assms by (auto simp: handleAddGift_def split: option.splits)

lemma handleAddGift_part001_rejects:
  assumes "parseInt giftAmount = None \<or> (parseInt giftAmount = Some amt \<and> amt \<le> 0)"
  shows "handleAddGift_part001 parseInt trim addGiftFn db roomId currentUser giftDescription giftAmount
           \<in> {(Some FillInAllFields, db), (Some EnterValidAmount, db)}"
  using assms by (auto simp: handleAddGift_part001_def split: option.splits)

text \<open>
  Claim C7 as amended. \<open>addGift\<close> has no "invalid amount" failure: on a stored room and
  with an amount that is not positive it succeeds as for any amount, the gift goes to
  the ledger through \<open>arrayUnion\<close> and the amount is added to \<open>spent\<close> of the participant
  named as gifter and to \<open>received\<close> of the one named as recipient (both revisions). The
  amount is rejected by the caller instead: when \<open>parseInt\<close> of the amount field is \<open>NaN\<close>
  or not positive, \<open>handleAddGift\<close> (both revisions of the room page) reports
  "Please enter a valid amount", or "Please fill in all fields" when a field is missing,
  and the store is unchanged.
\<close>

theorem addGift_invalid_amount:
  assumes rm: "db roomId = Some rm"
    and amt: "amt \<le> 0"
    and parsed: "parseInt giftAmount = None \<or> parseInt giftAmount = Some amt"
  shows "(\<exists>rm'. addGift shR shG now db roomId g r d amt = Inr (db(roomId \<mapsto> rm'))
            \<and> gifts rm' = arrayUnion (gifts rm)
                 \<lparr>g_id = now, g_gifter = g, g_recipient = r, description = d, amount = amt,
                   timestamp = None, isHidden = None\<rparr>
            \<and> map spent (participants rm')
                = map (\<lambda>p. if username p = g then jsAdd (spent p) amt else spent p) (participants rm)
            \<and> map received (participants rm')
                = map (\<lambda>p. if username p \<noteq> g \<and> username p = r then jsAdd (received p) amt
                            else received p) (participants rm))
       \<and> (\<exists>rm'. addGift_part002 shR shG now now' db roomId g r d amt = Inr (db(roomId \<mapsto> rm'))
            \<and> gifts rm' = arrayUnion (gifts rm)
                 \<lparr>g_id = now, g_gifter = g, g_recipient = r, description = d, amount = amt,
                   timestamp = Some now', isHidden = Some True\<rparr>
            \<and> map spent (participants rm')
                = map (\<lambda>p. if username p = g then jsAdd (spent p) amt else spent p) (participants rm)
            \<and> map received (participants rm')
                = map (\<lambda>p. if username p \<noteq> g \<and> username p = r then jsAdd (received p) amt
                            else received p) (participants rm))
       \<and> handleAddGift parseInt trim addGiftFn db roomId currentUser rm giftDescription giftAmount
            \<in> {(Some FillInAllFields, db), (Some EnterValidAmount, db)}
       \<and> handleAddGift_part001 parseInt trim addGiftFn db roomId currentUser giftDescription giftAmount
            \<in> {(Some FillInAllFields, db), (Some EnterValidAmount, db)}"
proof -
  have ok: "\<And>rm'. participants rm' = settledParticipants (activeAssignments rm') g r amt (participants rm)
     \<Longrightarrow> map spent (participants rm')
                = map (\<lambda>p. if username p = g then jsAdd (spent p) amt else spent p) (participants rm)
            \<and> map received (participants rm')
                = map (\<lambda>p. if username p \<noteq> g \<and> username p = r then jsAdd (received p) amt
                            else received p) (participants rm)"
    by (simp add: settledParticipants_spent settledParticipants_received)
  from addGift_fields [of db roomId rm shR shG now g r d amt, OF rm] ok
  have 1: "\<exists>rm'. addGift shR shG now db roomId g r d amt = Inr (db(roomId \<mapsto> rm'))
            \<and> gifts rm' = arrayUnion (gifts rm)
                 \<lparr>g_id = now, g_gifter = g, g_recipient = r, description = d, amount = amt,
                   timestamp = None, isHidden = None\<rparr>
            \<and> map spent (participants rm')
                = map (\<lambda>p. if username p = g then jsAdd (spent p) amt else spent p) (participants rm)
            \<and> map received (participants rm')
                = map (\<lambda>p. if username p \<noteq> g \<and> username p = r then jsAdd (received p) amt
                            else received p) (participants rm)"
    by blast
  from addGift_part002_fields [of db roomId rm shR shG now now' g r d amt, OF rm] ok
  have 2: "\<exists>rm'. addGift_part002 shR shG now now' db roomId g r d amt = Inr (db(roomId \<mapsto> rm'))
            \<and> gifts rm' = arrayUnion (gifts rm)
                 \<lparr>g_id = now, g_gifter = g, g_recipient = r, description = d, amount = amt,
                   timestamp = Some now', isHidden = Some True\<rparr>
            \<and> map spent (participants rm')
                = map (\<lambda>p. if username p = g then jsAdd (spent p) amt else spent p) (participants rm)
            \<and> map received (participants rm')
                = map (\<lambda>p. if username p \<noteq> g \<and> username p = r then jsAdd (received p) amt
                            else received p) (participants rm)"
    by blast
  from amt parsed
  have p: "parseInt giftAmount = None \<or> (parseInt giftAmount = Some amt \<and> amt \<le> 0)"
    by blast
  note 3 = handleAddGift_rejects [where parseInt = parseInt and giftAmount = giftAmount
      and amt = amt, OF p]
  note 4 = handleAddGift_part001_rejects [where parseInt = parseInt and giftAmount = giftAmount
      and amt = amt, OF p]
  from 1 2 3 4 show ?thesis by (intro conjI)
qed

theorem addGift_invalid_amount_witness:
  "(\<exists>rm'. addGift id id 1000 [''r'' \<mapsto> started3] ''r'' ''A'' ''B'' ''scarf'' (-5)
              = Inr ([''r'' \<mapsto> started3](''r'' \<mapsto> rm'))
        \<and> map spent (participants rm')
            = map (\<lambda>p. if username p = ''A'' then jsAdd (spent p) (-5) else spent p) (participants started3))
   \<and> handleAddGift (\<lambda>s. Some (-5)) id (addGift id id 1000) [''r'' \<mapsto> started3] ''r''
        (Some (person ''A'' 0 0 (Some ''B''))) started3 ''scarf'' ''-5''
        \<in> {(Some FillInAllFields, [''r'' \<mapsto> started3]), (Some EnterValidAmount, [''r'' \<mapsto> started3])}
   \<and> handleAddGift_part001 (\<lambda>s. Some (-5)) id (addGift id id 1000) [''r'' \<mapsto> started3] ''r''
        (Some (person ''A'' 0 0 (Some ''B''))) ''scarf'' ''-5''
        \<in> {(Some FillInAllFields, [''r'' \<mapsto> started3]), (Some EnterValidAmount, [''r'' \<mapsto> started3])}"
proof -
  have h1: "[''r'' \<mapsto> started3] ''r'' = Some started3" by simp
  have h2: "(-5 :: int) \<le> 0" by simp
  have h3: "(\<lambda>s. Some (-5 :: int)) ''-5'' = None \<or> (\<lambda>s. Some (-5 :: int)) ''-5'' = Some (-5)"
    by simp
  from addGift_invalid_amount [of "[''r'' \<mapsto> started3]" "''r''" started3 "-5"
      "\<lambda>s. Some (-5)" "''-5''" id id 1000 "''A''" "''B''" "''scarf''" 1001 id "addGift id id 1000"
      "Some (person ''A'' 0 0 (Some ''B''))" "''scarf''", OF h1 h2 h3]
  show ?thesis by blast
qed

text \<open>
  Claim C9 says that every successful call of \<open>addGift\<close> appends exactly one gift to the
  ledger and that the gift has \<open>isHidden = true\<close>. The gift is added with \<open>arrayUnion\<close>:
  in \<open>regifter3\<close> the ledger holds the gift of A to B with the clock reading 1000, and
  the same call with the same clock readings succeeds (A's \<open>spent\<close> goes from 40 to 80)
  while the ledger stays as it is. And the revision \<open>firebase.ts\<close> writes the gift
  without the field \<open>isHidden\<close>.
\<close>

theorem addGift_ledger_counterexample:
  "addGift_part002 rev id 1000 1000 [''r'' \<mapsto> regifter3] ''r'' ''A'' ''B'' ''scarf'' 40
     = Inr [''r'' \<mapsto> regifter3_twice]
   \<and> gifts regifter3 = [present_hidden 1000 ''A'' ''B'' 40]
   \<and> gifts regifter3_twice = gifts regifter3
   \<and> map spent (participants regifter3) = [40, 0, 0]
   \<and> map spent (participants regifter3_twice) = [80, 0, 0]
   \<and> addGift id id 1000 [''r'' \<mapsto> started3] ''r'' ''A'' ''B'' ''scarf'' 40
        = Inr [''r'' \<mapsto> settled3]
   \<and> gifts started3 = []
   \<and> map isHidden (gifts settled3) = [None]"
  by (simp add: steps rooms)

text \<open>
  Claim C9 as amended. Every successful call of \<open>addGift\<close> adds its gift to the ledger with
  \<open>arrayUnion\<close>: when no equal record (same clock readings, gifter, recipient, description
  and amount) is in the ledger, the ledger afterwards is the old one followed by exactly
  that gift; when an equal record is there, the ledger is unchanged. In the revision
  \<open>part_002\<close> the gift is created with \<open>isHidden = true\<close>.
\<close>

theorem addGift_ledger:
  assumes rm: "db roomId = Some rm"
  shows "(\<exists>rm' gft. addGift_part002 shR shG now now' db roomId g r d amt = Inr (db(roomId \<mapsto> rm'))
            \<and> gft = \<lparr>g_id = now, g_gifter = g, g_recipient = r, description = d, amount = amt,
                       timestamp = Some now', isHidden = Some True\<rparr>
            \<and> isHidden gft = Some True
            \<and> (gft \<notin> set (gifts rm) \<longrightarrow> gifts rm' = gifts rm @ [gft])
            \<and> (gft \<in> set (gifts rm) \<longrightarrow> gifts rm' = gifts rm))
       \<and> (\<exists>rm' gft. addGift shR shG now db roomId g r d amt = Inr (db(roomId \<mapsto> rm'))
            \<and> gft = \<lparr>g_id = now, g_gifter = g, g_recipient = r, description = d, amount = amt,
                       timestamp = None, isHidden = None\<rparr>
            \<and> (gft \<notin> set (gifts rm) \<longrightarrow> gifts rm' = gifts rm @ [gft])
            \<and> (gft \<in> set (gifts rm) \<longrightarrow> gifts rm' = gifts rm))"
proof -
  have au: "\<And>(gs :: gift list) gft gs'. gs' = arrayUnion gs gft
      \<Longrightarrow> (gft \<notin> set gs \<longrightarrow> gs' = gs @ [gft]) \<and> (gft \<in> set gs \<longrightarrow> gs' = gs)"
    by (simp add: arrayUnion_def)
  from addGift_part002_fields [of db roomId rm shR shG now now' g r d amt, OF rm]
  obtain rm2 where 2: "addGift_part002 shR shG now now' db roomId g r d amt = Inr (db(roomId \<mapsto> rm2))"
    "gifts rm2 = arrayUnion (gifts rm)
          \<lparr>g_id = now, g_gifter = g, g_recipient = r, description = d, amount = amt,
            timestamp = Some now', isHidden = Some True\<rparr>"
    by blast
  from addGift_fields [of db roomId rm shR shG now g r d amt, OF rm]
  obtain rm1 where 1: "addGift shR shG now db roomId g r d amt = Inr (db(roomId \<mapsto> rm1))"
    "gifts rm1 = arrayUnion (gifts rm)
          \<lparr>g_id = now, g_gifter = g, g_recipient = r, description = d, amount = amt,
            timestamp = None, isHidden = None\<rparr>"
    by blast
  have a: "\<exists>rm' gft. addGift_part002 shR shG now now' db roomId g r d amt = Inr (db(roomId \<mapsto> rm'))
            \<and> gft = \<lparr>g_id = now, g_gifter = g, g_recipient = r, description = d, amount = amt,
                       timestamp = Some now', isHidden = Some True\<rparr>
            \<and> isHidden gft = Some True
            \<and> (gft \<notin> set (gifts rm) \<longrightarrow> gifts rm' = gifts rm @ [gft])
            \<and> (gft \<in> set (gifts rm) \<longrightarrow> gifts rm' = gifts rm)"
    using 2(1) au [OF 2(2)] by (intro exI [of _ rm2] exI conjI) (rule refl | simp)+
  have b: "\<exists>rm' gft. addGift shR shG now db roomId g r d amt = Inr (db(roomId \<mapsto> rm'))
            \<and> gft = \<lparr>g_id = now, g_gifter = g, g_recipient = r, description = d, amount = amt,
                       timestamp = None, isHidden = None\<rparr>
            \<and> (gft \<notin> set (gifts rm) \<longrightarrow> gifts rm' = gifts rm @ [gft])
            \<and> (gft \<in> set (gifts rm) \<longrightarrow> gifts rm' = gifts rm)"
    using 1(1) au [OF 1(2)] by (intro exI [of _ rm1] exI conjI) (rule refl | simp)+
  from a b show ?thesis by (rule conjI)
qed

theorem addGift_ledger_witness:
  "(\<exists>rm'. addGift_part002 id id 1000 1001 [''r'' \<mapsto> started3] ''r'' ''A'' ''B'' ''scarf'' 40
             = Inr ([''r'' \<mapsto> started3](''r'' \<mapsto> rm'))
        \<and> gifts rm' = gifts started3 @ [\<lparr>g_id = 1000, g_gifter = ''A'', g_recipient = ''B'',
             description = ''scarf'', amount = 40, timestamp = Some 1001, isHidden = Some True\<rparr>])
   \<and> (\<exists>rm'. addGift_part002 rev id 1000 1000 [''r'' \<mapsto> regifter3] ''r'' ''A'' ''B'' ''scarf'' 40
             = Inr ([''r'' \<mapsto> regifter3](''r'' \<mapsto> rm'))
        \<and> gifts rm' = gifts regifter3)
   \<and> (\<exists>rm'. addGift id id 1000 [''r'' \<mapsto> started3] ''r'' ''A'' ''B'' ''scarf'' 40
             = Inr ([''r'' \<mapsto> started3](''r'' \<mapsto> rm'))
        \<and> gifts rm' = gifts started3 @ [\<lparr>g_id = 1000, g_gifter = ''A'', g_recipient = ''B'',
             description = ''scarf'', amount = 40, timestamp = None, isHidden = None\<rparr>])"
proof -
  have h1: "[''r'' \<mapsto> started3] ''r'' = Some started3" by simp
  have h2: "[''r'' \<mapsto> regifter3] ''r'' = Some regifter3" by simp
  have n1: "\<lparr>g_id = 1000, g_gifter = ''A'', g_recipient = ''B'',
             description = ''scarf'', amount = 40, timestamp = Some 1001, isHidden = Some True\<rparr>
           \<notin> set (gifts started3)"
    by (simp add: rooms)
  have n2: "\<lparr>g_id = 1000, g_gifter = ''A'', g_recipient = ''B'',
             description = ''scarf'', amount = 40, timestamp = None, isHidden = None\<rparr>
           \<notin> set (gifts started3)"
    by (simp add: rooms)
  have n3: "\<lparr>g_id = 1000, g_gifter = ''A'', g_recipient = ''B'',
             description = ''scarf'', amount = 40, timestamp = Some 1000, isHidden = Some True\<rparr>
           \<in> set (gifts regifter3)"
    by (simp add: rooms)
  note a = addGift_ledger [of "[''r'' \<mapsto> started3]" "''r''" started3 id id 1000 1001
      "''A''" "''B''" "''scarf''" 40, OF h1]
  note b = addGift_ledger [of "[''r'' \<mapsto> regifter3]" "''r''" regifter3 rev id 1000 1000
      "''A''" "''B''" "''scarf''" 40, OF h2]
  from a [THEN conjunct1] n1 have 1: "\<exists>rm'. addGift_part002 id id 1000 1001 [''r'' \<mapsto> started3] ''r'' ''A'' ''B'' ''scarf'' 40
             = Inr ([''r'' \<mapsto> started3](''r'' \<mapsto> rm'))
        \<and> gifts rm' = gifts started3 @ [\<lparr>g_id = 1000, g_gifter = ''A'', g_recipient = ''B'',
             description = ''scarf'', amount = 40, timestamp = Some 1001, isHidden = Some True\<rparr>]"
    by blast
  from b [THEN conjunct1] n3 have 2: "\<exists>rm'. addGift_part002 rev id 1000 1000 [''r'' \<mapsto> regifter3] ''r'' ''A'' ''B'' ''scarf'' 40
             = Inr ([''r'' \<mapsto> regifter3](''r'' \<mapsto> rm'))
        \<and> gifts rm' = gifts regifter3"
    by blast
  from a [THEN conjunct2] n2 have 3: "\<exists>rm'. addGift id id 1000 [''r'' \<mapsto> started3] ''r'' ''A'' ''B'' ''scarf'' 40
             = Inr ([''r'' \<mapsto> started3](''r'' \<mapsto> rm'))
        \<and> gifts rm' = gifts started3 @ [\<lparr>g_id = 1000, g_gifter = ''A'', g_recipient = ''B'',
             description = ''scarf'', amount = 40, timestamp = None, isHidden = None\<rparr>]"
    by blast
  from 1 2 3 show ?thesis by (intro conjI)
qed

text \<open>
  Claim C4 says that no participant with \<open>spent > 0\<close> is selected as a new gifter while
  any participant has \<open>spent = 0\<close>. The tier of \<open>createNewAssignments\<close> (\<open>firebase.ts\<close>)
  holds the participants with \<open>spent = 0\<close> that are not the gifter of a current assignment
  and not excluded. In \<open>midgame4\<close> C has given nothing and is still the gifter of an open
  assignment; when D settles, the tier is empty, the fallback is used and A, who has
  given 10, becomes a gifter again.
\<close>

theorem fairness_tier_counterexample:
  "addGift id id 3000 [''r'' \<mapsto> midgame4] ''r'' ''D'' ''A'' ''scarf'' 10 = Inr [''r'' \<mapsto> after4]
   \<and> activeAssignments midgame4 = [pair ''C'' ''D'', pair ''D'' ''A'']
   \<and> activeAssignments after4 = [pair ''C'' ''D'', pair ''A'' ''B'']
   \<and> map username (participants after4) = [''A'', ''B'', ''C'', ''D'']
   \<and> map spent (participants after4) = [10, 10, 0, 10]
   \<and> createNewAssignments id id
        (map (clearGifter ''D'') (map (settleAmounts ''D'' ''A'' 10) (participants midgame4)))
        100 [pair ''C'' ''D''] [''D'']
      = [pair ''A'' ''B'']"
  by (simp add: steps rooms)

text \<open>
  Claim C4 as amended, for the revision \<open>firebase.ts\<close>. Whenever some participant has
  \<open>spent = 0\<close>, is not the gifter of a current assignment and is not in the exclusion
  list, every new gifter \<open>createNewAssignments\<close> selects is such a participant; and
  likewise for \<open>createAssignments\<close> with the previous gifters. (A participant with
  \<open>spent = 0\<close> who is a current gifter or excluded does not keep others from being
  selected.)
\<close>

theorem fairness_tier:
  assumes sh: "is_shuffle shG"
  shows "((\<exists>q \<in> set ps. spent q = 0 \<and> username q \<notin> gifter ` set cur \<and> username q \<notin> set ex)
          \<longrightarrow> (\<forall>a \<in> set (createNewAssignments shR shG ps bud cur ex).
                 \<exists>p \<in> set ps. username p = gifter a \<and> spent p = 0
                   \<and> username p \<notin> gifter ` set cur \<and> username p \<notin> set ex))
       \<and> ((\<exists>q \<in> set ps. spent q = 0 \<and> username q \<notin> set prev)
          \<longrightarrow> (\<forall>a \<in> set (createAssignments shR shG ps bud prev).
                 \<exists>p \<in> set ps. username p = gifter a \<and> spent p = 0 \<and> username p \<notin> set prev))"
proof (intro conjI impI ballI)
  fix a
  assume q: "\<exists>q \<in> set ps. spent q = 0 \<and> username q \<notin> gifter ` set cur \<and> username q \<notin> set ex"
    and a: "a \<in> set (createNewAssignments shR shG ps bud cur ex)"
  from createNewAssignments_gifter [OF sh a] q
  show "\<exists>p \<in> set ps. username p = gifter a \<and> spent p = 0
          \<and> username p \<notin> gifter ` set cur \<and> username p \<notin> set ex"
    by blast
next
  fix a
  assume q: "\<exists>q \<in> set ps. spent q = 0 \<and> username q \<notin> set prev"
    and a: "a \<in> set (createAssignments shR shG ps bud prev)"
  from createAssignments_gifter [OF sh a] q
  show "\<exists>p \<in> set ps. username p = gifter a \<and> spent p = 0 \<and> username p \<notin> set prev"
    by blast
qed

theorem fairness_tier_witness:
  "pair ''B'' ''A'' \<in> set (createNewAssignments id id (participants settled3) 100 [] [''A''])
   \<and> (\<exists>p \<in> set (participants settled3). username p = gifter (pair ''B'' ''A'') \<and> spent p = 0
         \<and> username p \<notin> gifter ` set ([] :: assignment list) \<and> username p \<notin> set [''A''])
   \<and> pair ''A'' ''B'' \<in> set (createAssignments id id (participants lobby3) 100 [])
   \<and> (\<exists>p \<in> set (participants lobby3). username p = gifter (pair ''A'' ''B'') \<and> spent p = 0
         \<and> username p \<notin> set [])"
proof -
  have sh: "is_shuffle id" by (rule is_shuffle_id)
  have q1: "\<exists>q \<in> set (participants settled3). spent q = 0 \<and> username q \<notin> gifter ` set ([] :: assignment list)
              \<and> username q \<notin> set [''A'']"
    by (simp add: rooms)
  have q2: "\<exists>q \<in> set (participants lobby3). spent q = 0 \<and> username q \<notin> set []"
    by (simp add: rooms)
  have a1: "pair ''B'' ''A'' \<in> set (createNewAssignments id id (participants settled3) 100 [] [''A''])"
    by (simp add: steps rooms)
  have a2: "pair ''A'' ''B'' \<in> set (createAssignments id id (participants lobby3) 100 [])"
    by (simp add: steps rooms)
  note t = fairness_tier [of id "participants settled3" "[]" "[''A'']" id 100 "[]", OF sh]
  note u = fairness_tier [of id "participants lobby3" "[]" "[]" id 100 "[]", OF sh]
  from t [THEN conjunct1, THEN mp, OF q1, THEN bspec, OF a1]
  have 1: "\<exists>p \<in> set (participants settled3). username p = gifter (pair ''B'' ''A'') \<and> spent p = 0
         \<and> username p \<notin> gifter ` set ([] :: assignment list) \<and> username p \<notin> set [''A'']" .
  from u [THEN conjunct2, THEN mp, OF q2, THEN bspec, OF a2]
  have 2: "\<exists>p \<in> set (participants lobby3). username p = gifter (pair ''A'' ''B'') \<and> spent p = 0
         \<and> username p \<notin> set []" .
  from a1 1 a2 2 show ?thesis by (intro conjI)
qed

text \<open>
  Claim C3: no assignment has \<open>gifter = recipient\<close>. The revision \<open>firebase.ts\<close> satisfies
  it (\<open>firebase_no_self_assignment\<close>, \<open>startGame_assignments\<close>,
  \<open>addGift_settled_gifter_excluded\<close>). The revision \<open>part_002\<close> pairs
  \<open>shuffledGifters[i]\<close> with \<open>shuffledRecipients[i]\<close> and compares no usernames: in a room
  of the two participants A and B, with both shuffles leaving the order as it is,
  \<open>startGame\<close> stores the assignment of A to A.
\<close>

theorem part002_self_assignment:
  "startGame_part002 id id [''r'' \<mapsto> lobby2] ''r'' = Inr [''r'' \<mapsto> selfgift2]
   \<and> activeAssignments selfgift2 = [\<lparr>gifter = ''A'', recipient = ''A''\<rparr>]
   \<and> createAssignments_part002 id id (participants lobby2) 100
        = [\<lparr>gifter = ''A'', recipient = ''A''\<rparr>]"
  by (simp add: steps rooms)

text \<open>
  Claim C5: no username is the recipient of two active assignments. The revision
  \<open>firebase.ts\<close> keeps this (\<open>firebase_recipients_exclusive\<close>, \<open>startGame_assignments\<close>,
  \<open>addGift_recipients_exclusive\<close>). The revision \<open>part_002\<close> takes the new recipients from
  all participants below the budget, whoever is a recipient already: in \<open>started4\<close>
  (written by its \<open>startGame\<close>) A gifts to B and B to C; when B settles, D is assigned to
  B, who is now the recipient of A and of D.
\<close>

theorem part002_recipient_twice:
  "startGame_part002 rotate1 id [''r'' \<mapsto> lobby4] ''r'' = Inr [''r'' \<mapsto> started4]
   \<and> activeAssignments started4 = [pair ''A'' ''B'', pair ''B'' ''C'']
   \<and> addGift_part002 rotate1 rev 1000 1000 [''r'' \<mapsto> started4] ''r'' ''B'' ''C'' ''scarf'' 10
        = Inr [''r'' \<mapsto> doubled4]
   \<and> activeAssignments doubled4 = [pair ''A'' ''B'', pair ''D'' ''B'']
   \<and> map recipient (activeAssignments doubled4) = [''B'', ''B'']"
  by (simp add: steps rooms)

text \<open>
  Claim C8: the gifter who has just settled is not the gifter of an assignment created in
  the same call. The revision \<open>firebase.ts\<close> passes \<open>[gifter]\<close> as excluded and satisfies
  the claim (\<open>firebase_settled_gifter_excluded\<close>, \<open>addGift_settled_gifter_excluded\<close>).
  The revision \<open>part_002\<close> calls \<open>createNewAssignments\<close> without an exclusion, after it
  has cleared the settled gifter's flag: in \<open>started3\<close> (written by its \<open>startGame\<close>) A
  gifts to B; when A settles, the new assignment is A to C.
\<close>

theorem part002_settled_gifter_again:
  "startGame_part002 rotate1 id [''r'' \<mapsto> lobby3] ''r'' = Inr [''r'' \<mapsto> started3]
   \<and> activeAssignments started3 = [pair ''A'' ''B'']
   \<and> addGift_part002 rev id 1000 1000 [''r'' \<mapsto> started3] ''r'' ''A'' ''B'' ''scarf'' 40
        = Inr [''r'' \<mapsto> regifter3]
   \<and> activeAssignments regifter3 = [pair ''A'' ''C'']
   \<and> createNewAssignments_part002 rev id
        (map (clearGifter ''A'') (map (settleAmounts ''A'' ''B'' 40) (participants started3)))
        100 []
      = [pair ''A'' ''C'']"
  by (simp add: steps rooms)

end
